theory Spec2Isabelle
  imports Complex_Main
begin

section \<open>Cursor and origin alignment tools: data model\<close>

text \<open>
  The add-on is a set of operators over a host scene. Python floats are idealised as
  \<^typ>\<open>real\<close>; vectors and matrices of the host's math library are tuples of reals, matrices
  row by row. An operator's \<open>execute\<close> takes the context and returns an outcome: the status
  it returns, the reports it issued, the context after it, and a ghost counter of the loop
  bodies it ran. An \<open>execute\<close> that can raise returns a run: an outcome, or the exception
  with the state at the raise.
\<close>

type_synonym vec3 = "real \<times> real \<times> real"
type_synonym vec4 = "real \<times> real \<times> real \<times> real"
type_synonym mat3 = "vec3 \<times> vec3 \<times> vec3"
type_synonym mat4 = "vec4 \<times> vec4 \<times> vec4 \<times> vec4"
type_synonym quat = "real \<times> real \<times> real \<times> real"

record Euler =
  euler_x :: real
  euler_y :: real
  euler_z :: real

datatype rotation_step_item = STEP_90 | STEP_45 | STEP_30 | STEP_15 | CUSTOM

datatype pie_menu_key_item = ALT | CTRL | SHIFT | NONE

record CursorAlignProperties =
  rotation_step :: rotation_step_item
  custom_step :: real
  use_snap_menu :: bool
  use_pie_menu :: bool
  pie_menu_key :: pie_menu_key_item

record View3DCursor =
  cursor_location :: vec3
  cursor_rotation_euler :: Euler
  cursor_rotation_mode :: string

record Object =
  obj_location :: vec3
  obj_rotation_euler :: Euler
  obj_matrix_world :: mat4

text \<open>
  A transform orientation slot of the scene. The host gives a slot the attributes \<open>type\<close>,
  \<open>custom_orientation\<close> and \<open>use\<close>; it has no \<open>name\<close> and no \<open>matrix\<close>.
\<close>

record OrientationSlot =
  slot_type :: string

record Scene =
  cursor :: View3DCursor
  cursor_align_props :: CursorAlignProperties
  transform_orientation_slots :: "OrientationSlot list"

record BMFace =
  face_select :: bool
  face_normal :: vec3

text \<open>
  A region of an area. \<open>region.data.view_rotation\<close> and \<open>region.data.view_matrix\<close> are
  attribute reads that may raise AttributeError (also when \<open>region.data\<close> is None); the
  value \<open>None\<close> stands for the raise.
\<close>

record Region =
  region_type :: string
  view_rotation :: "quat option"
  view_matrix :: "mat4 option"

record Space =
  space_type :: string

record Area =
  area_type :: string
  spaces :: "Space list"
  regions :: "Region list"

text \<open>
  The context. Objects live in a store indexed by identity; \<open>selected_objects\<close> and
  \<open>active_object\<close> hold identities. \<open>edit_faces\<close> are the faces of the edit object's mesh.
\<close>

record Context =
  scene :: Scene
  objects :: "nat \<Rightarrow> Object"
  selected_objects :: "nat list"
  active_object :: "nat option"
  mode :: string
  edit_faces :: "BMFace list"
  screen_areas :: "Area list"

datatype op_status = FINISHED | CANCELLED | RUNNING_MODAL | PASS_THROUGH | INTERFACE

datatype report_type = INFO | WARNING | ERROR

datatype py_error = AttributeError | TypeError | RuntimeError

record outcome =
  status :: op_status
  reports :: "(report_type \<times> string) list"
  after :: Context
  iterations :: nat

text \<open>
  A run of an \<open>execute\<close> that can raise: the outcome it returns, or the exception it
  raises with the reports issued before, the context at the raise and the loop bodies run.
\<close>

datatype run = Returned outcome | Raised py_error "(report_type \<times> string) list" Context nat

text \<open>
  The host's math library and operators are not part of the add-on. The numeric
  conversions the host provides and the host operators the add-on calls are parameters of
  the model; a host operator returns the context it leaves or raises.
\<close>

record host =
  euler_to_matrix :: "Euler \<Rightarrow> mat3"
  matrix_to_euler :: "mat3 \<Rightarrow> string \<Rightarrow> Euler"
  matrix4_to_euler :: "mat4 \<Rightarrow> Euler"
  quaternion_to_euler :: "quat \<Rightarrow> string \<Rightarrow> Euler"
  quaternion_to_matrix :: "quat \<Rightarrow> mat3"
  rotation_difference :: "vec3 \<Rightarrow> vec3 \<Rightarrow> quat"
  to_scale :: "mat4 \<Rightarrow> vec3"
  cursor_matrix :: "View3DCursor \<Rightarrow> mat4"
  addon_modules :: "(string \<times> bool) list option"
  origin_set :: "string \<Rightarrow> Context \<Rightarrow> py_error + Context"
  snap_selected_to_cursor :: "bool \<Rightarrow> bool \<Rightarrow> Context \<Rightarrow> py_error + Context"
  snap_cursor_to_selected :: "Context \<Rightarrow> py_error + Context"
  create_orientation :: "string \<Rightarrow> bool \<Rightarrow> Context \<Rightarrow> py_error + Context"
  call_menu :: "string \<Rightarrow> Context \<Rightarrow> py_error + Context"

subsection \<open>Outcomes and loops\<close>

definition finished :: "Context \<Rightarrow> nat \<Rightarrow> outcome" where
  "finished c k = \<lparr>status = FINISHED, reports = [], after = c, iterations = k\<rparr>"

definition cancelled :: "string \<Rightarrow> Context \<Rightarrow> nat \<Rightarrow> outcome" where
  "cancelled msg c k = \<lparr>status = CANCELLED, reports = [(WARNING, msg)], after = c, iterations = k\<rparr>"

text \<open>A \<open>for\<close> loop without early exit: the body runs once per element, counted.\<close>

fun for_each :: "('a \<Rightarrow> 's \<Rightarrow> 's) \<Rightarrow> 'a list \<Rightarrow> 's \<times> nat \<Rightarrow> 's \<times> nat" where
  "for_each body [] (s, k) = (s, k)"
| "for_each body (x # xs) (s, k) = for_each body xs (body x s, Suc k)"

text \<open>
  A \<open>for\<close> loop whose body can raise: the loop stops at the first raise, with the state
  before that body and the bodies entered so far.
\<close>

fun for_each_raising ::
    "('a \<Rightarrow> 's \<Rightarrow> py_error + 's) \<Rightarrow> 'a list \<Rightarrow> 's \<times> nat \<Rightarrow> (py_error \<times> 's \<times> nat) + ('s \<times> nat)" where
  "for_each_raising body [] (s, k) = Inr (s, k)"
| "for_each_raising body (x # xs) (s, k) =
     (case body x s of
        Inl e \<Rightarrow> Inl (e, s, Suc k)
      | Inr s' \<Rightarrow> for_each_raising body xs (s', Suc k))"

fun run_status :: "run \<Rightarrow> op_status option" where
  "run_status (Returned out) = Some (status out)"
| "run_status (Raised e rs c k) = None"

fun run_error :: "run \<Rightarrow> py_error option" where
  "run_error (Returned out) = None"
| "run_error (Raised e rs c k) = Some e"

fun run_after :: "run \<Rightarrow> Context" where
  "run_after (Returned out) = after out"
| "run_after (Raised e rs c k) = c"

fun run_iterations :: "run \<Rightarrow> nat" where
  "run_iterations (Returned out) = iterations out"
| "run_iterations (Raised e rs c k) = k"

subsection \<open>State updates\<close>

definition set_cursor_rotation :: "Euler \<Rightarrow> Context \<Rightarrow> Context" where
  "set_cursor_rotation e c =
     c\<lparr>scene := (scene c)\<lparr>cursor := (cursor (scene c))\<lparr>cursor_rotation_euler := e\<rparr>\<rparr>\<rparr>"

definition set_cursor_location :: "vec3 \<Rightarrow> Context \<Rightarrow> Context" where
  "set_cursor_location v c =
     c\<lparr>scene := (scene c)\<lparr>cursor := (cursor (scene c))\<lparr>cursor_location := v\<rparr>\<rparr>\<rparr>"

definition update_object :: "nat \<Rightarrow> (Object \<Rightarrow> Object) \<Rightarrow> Context \<Rightarrow> Context" where
  "update_object i f c = c\<lparr>objects := (objects c)(i := f (objects c i))\<rparr>"

definition euler_of :: "vec3 \<Rightarrow> Euler" where
  "euler_of v = (case v of (a, b, d) \<Rightarrow> \<lparr>euler_x = a, euler_y = b, euler_z = d\<rparr>)"

subsection \<open>Vectors and matrices\<close>

text \<open>The structural operations of the host's vectors and matrices that the add-on uses.\<close>

fun vec_x :: "vec3 \<Rightarrow> real" where "vec_x (a, b, d) = a"
fun vec_y :: "vec3 \<Rightarrow> real" where "vec_y (a, b, d) = b"
fun vec_z :: "vec3 \<Rightarrow> real" where "vec_z (a, b, d) = d"

fun vec_add :: "vec3 \<Rightarrow> vec3 \<Rightarrow> vec3" where
  "vec_add (a, b, d) (a', b', d') = (a + a', b + b', d + d')"

fun vec_sub :: "vec3 \<Rightarrow> vec3 \<Rightarrow> vec3" where
  "vec_sub (a, b, d) (a', b', d') = (a - a', b - b', d - d')"

fun vec_scale :: "vec3 \<Rightarrow> real \<Rightarrow> vec3" where
  "vec_scale (a, b, d) t = (a * t, b * t, d * t)"

fun dot :: "vec3 \<Rightarrow> vec3 \<Rightarrow> real" where
  "dot (a, b, d) (a', b', d') = a * a' + b * b' + d * d'"

fun slice3 :: "vec4 \<Rightarrow> vec3" where
  "slice3 (a, b, d, w) = (a, b, d)"

fun to_3x3 :: "mat4 \<Rightarrow> mat3" where
  "to_3x3 (r0, r1, r2, r3) = (slice3 r0, slice3 r1, slice3 r2)"

fun to_4x4 :: "mat3 \<Rightarrow> mat4" where
  "to_4x4 ((a0, a1, a2), (b0, b1, b2), (d0, d1, d2)) =
     ((a0, a1, a2, 0), (b0, b1, b2, 0), (d0, d1, d2, 0), (0, 0, 0, 1))"

fun to_translation :: "mat4 \<Rightarrow> vec3" where
  "to_translation ((a0, a1, a2, a3), (b0, b1, b2, b3), (d0, d1, d2, d3), r3) = (a3, b3, d3)"

fun set_translation :: "vec3 \<Rightarrow> mat4 \<Rightarrow> mat4" where
  "set_translation (tx, ty, tz) ((a0, a1, a2, a3), (b0, b1, b2, b3), (d0, d1, d2, d3), r3) =
     ((a0, a1, a2, tx), (b0, b1, b2, ty), (d0, d1, d2, tz), r3)"

text \<open>\<open>m[0][0] *= s.x; m[1][1] *= s.y; m[2][2] *= s.z\<close>\<close>

fun scale_diagonal :: "vec3 \<Rightarrow> mat4 \<Rightarrow> mat4" where
  "scale_diagonal (sx, sy, sz) ((a0, a1, a2, a3), (b0, b1, b2, b3), (d0, d1, d2, d3), r3) =
     ((a0 * sx, a1, a2, a3), (b0, b1 * sy, b2, b3), (d0, d1, d2 * sz, d3), r3)"

fun mat_row :: "mat4 \<Rightarrow> nat \<Rightarrow> vec4" where
  "mat_row (r0, r1, r2, r3) i = (if i = 0 then r0 else if i = 1 then r1 else if i = 2 then r2 else r3)"

section \<open>Settings\<close>

text \<open>\<open>float\<close> of an enum identifier made of decimal digits.\<close>

definition digit_value :: "char \<Rightarrow> nat" where
  "digit_value ch = (case map_of (zip ''0123456789'' [0, 1, 2, 3, 4, 5, 6, 7, 8, 9]) ch of Some d \<Rightarrow> d | None \<Rightarrow> 0)"

definition py_float :: "string \<Rightarrow> real" where
  "py_float s = real (foldl (\<lambda>a ch. 10 * a + digit_value ch) 0 s)"

fun item_identifier :: "rotation_step_item \<Rightarrow> string" where
  "item_identifier STEP_90 = ''90''"
| "item_identifier STEP_45 = ''45''"
| "item_identifier STEP_30 = ''30''"
| "item_identifier STEP_15 = ''15''"
| "item_identifier CUSTOM = ''CUSTOM''"

definition radians :: "real \<Rightarrow> real" where
  "radians d = d * pi / 180"

definition get_step :: "Scene \<Rightarrow> real" where
  "get_step sc =
     (let props = cursor_align_props sc;
          angle_deg = (if rotation_step props = CUSTOM then custom_step props
                       else py_float (item_identifier (rotation_step props)))
      in radians angle_deg)"

text \<open>
  The declared defaults of the property group, and the host's property writes: a float
  property declared with \<open>min\<close> and \<open>max\<close> stores every written value clamped to that range.
\<close>

definition default_props :: CursorAlignProperties where
  "default_props = \<lparr>rotation_step = STEP_90, custom_step = 22.5, use_snap_menu = True,
                    use_pie_menu = False, pie_menu_key = ALT\<rparr>"

definition write_custom_step :: "real \<Rightarrow> CursorAlignProperties \<Rightarrow> CursorAlignProperties" where
  "write_custom_step v p = p\<lparr>custom_step := max 0.1 (min 360 v)\<rparr>"

inductive stored_props :: "CursorAlignProperties \<Rightarrow> bool" where
  initial: "stored_props default_props"
| write_rotation_step: "stored_props p \<Longrightarrow> stored_props (p\<lparr>rotation_step := r\<rparr>)"
| write_custom: "stored_props p \<Longrightarrow> stored_props (write_custom_step v p)"
| write_snap_menu: "stored_props p \<Longrightarrow> stored_props (p\<lparr>use_snap_menu := b\<rparr>)"
| write_pie_menu: "stored_props p \<Longrightarrow> stored_props (p\<lparr>use_pie_menu := b\<rparr>)"
| write_pie_key: "stored_props p \<Longrightarrow> stored_props (p\<lparr>pie_menu_key := k\<rparr>)"

section \<open>Helper functions\<close>

definition upper_char :: "char \<Rightarrow> char" where
  "upper_char ch =
     (case map_of (zip ''abcdefghijklmnopqrstuvwxyz'' ''ABCDEFGHIJKLMNOPQRSTUVWXYZ'') ch of
        Some u \<Rightarrow> u | None \<Rightarrow> ch)"

definition upper :: "string \<Rightarrow> string" where
  "upper s = map upper_char s"

text \<open>
  The host's math library (Blender 4.5, the version \<open>bl_info\<close> names) gives its Euler
  type the methods \<open>copy\<close>, \<open>make_compatible\<close>, \<open>rotate\<close>, \<open>rotate_axis\<close>, \<open>to_matrix\<close>,
  \<open>to_quaternion\<close> and \<open>zero\<close>. It has no \<open>normalized\<close>: the attribute read in
  \<open>new_eul.normalized()\<close> raises AttributeError, whatever the Euler.
\<close>

definition normalized :: "Euler \<Rightarrow> py_error + Euler" where
  "normalized e = Inl AttributeError"

definition rotate_euler :: "Euler \<Rightarrow> string \<Rightarrow> real \<Rightarrow> py_error + Euler" where
  "rotate_euler euler ax delta =
     (let new_eul = euler;
          ax = upper ax;
          new_eul = (if ax = ''X'' then new_eul\<lparr>euler_x := euler_x new_eul + delta\<rparr>
                     else if ax = ''Y'' then new_eul\<lparr>euler_y := euler_y new_eul + delta\<rparr>
                     else if ax = ''Z'' then new_eul\<lparr>euler_z := euler_z new_eul + delta\<rparr>
                     else new_eul)
      in normalized new_eul)"

section \<open>Cursor operators\<close>

datatype axis_item = X | Y | Z

datatype direction_item = POS | NEG

fun axis_id :: "axis_item \<Rightarrow> string" where
  "axis_id X = ''X''"
| "axis_id Y = ''Y''"
| "axis_id Z = ''Z''"

definition CURSOR_OT_reset_orientation_execute :: "Context \<Rightarrow> outcome" where
  "CURSOR_OT_reset_orientation_execute c =
     finished (set_cursor_rotation (euler_of (0, 0, 0)) c) 0"

definition CURSOR_OT_rotate_axis_execute :: "axis_item \<Rightarrow> direction_item \<Rightarrow> Context \<Rightarrow> run" where
  "CURSOR_OT_rotate_axis_execute ax dir c =
     (let step_rad = get_step (scene c);
          delta = (if dir = POS then step_rad else - step_rad)
      in case rotate_euler (cursor_rotation_euler (cursor (scene c))) (axis_id ax) delta of
           Inl e \<Rightarrow> Raised e [] c 0
         | Inr eul \<Rightarrow> Returned (finished (set_cursor_rotation eul c) 0))"

definition CURSOR_OT_flip_axis_execute :: "axis_item \<Rightarrow> Context \<Rightarrow> outcome" where
  "CURSOR_OT_flip_axis_execute ax c =
     (let eul = cursor_rotation_euler (cursor (scene c));
          eul = (if ax = X then eul\<lparr>euler_x := - euler_x eul\<rparr>
                 else if ax = Y then eul\<lparr>euler_y := - euler_y eul\<rparr>
                 else if ax = Z then eul\<lparr>euler_z := - euler_z eul\<rparr>
                 else eul)
      in finished (set_cursor_rotation eul c) 0)"

definition copy_object_rotation_to_cursor :: "host \<Rightarrow> Object \<Rightarrow> View3DCursor \<Rightarrow> View3DCursor" where
  "copy_object_rotation_to_cursor h obj cur =
     (let matrix = to_3x3 (obj_matrix_world obj)
      in cur\<lparr>cursor_rotation_euler := matrix_to_euler h matrix (cursor_rotation_mode cur)\<rparr>)"

definition apply_cursor_rotation_to_object :: "host \<Rightarrow> View3DCursor \<Rightarrow> Object \<Rightarrow> Object" where
  "apply_cursor_rotation_to_object h cur obj =
     (let cur_rot = euler_to_matrix h (cursor_rotation_euler cur);
          obj_mat = obj_matrix_world obj;
          scale = to_scale h obj_mat;
          loc = to_translation obj_mat;
          new_mat = to_4x4 cur_rot;
          new_mat = scale_diagonal scale new_mat;
          new_mat = set_translation loc new_mat
      in obj\<lparr>obj_matrix_world := new_mat\<rparr>)"

definition CURSOR_OT_copy_from_object_execute :: "host \<Rightarrow> Context \<Rightarrow> outcome" where
  "CURSOR_OT_copy_from_object_execute h c =
     (case active_object c of
        None \<Rightarrow> cancelled ''No active object to copy from'' c 0
      | Some i \<Rightarrow>
          finished (c\<lparr>scene := (scene c)\<lparr>cursor :=
                      copy_object_rotation_to_cursor h (objects c i) (cursor (scene c))\<rparr>\<rparr>) 0)"

definition CURSOR_OT_apply_to_object_execute :: "host \<Rightarrow> Context \<Rightarrow> outcome" where
  "CURSOR_OT_apply_to_object_execute h c =
     (let selected = selected_objects c
      in if selected = [] then cancelled ''No objects selected'' c 0
         else (let cur = cursor (scene c);
                   (c', k) = for_each (\<lambda>i. update_object i (apply_cursor_rotation_to_object h cur))
                               selected (c, 0)
               in finished c' k))"

text \<open>
  The three nested loops of \<open>cursor.align_to_view\<close>. Each returns the rotation found, if
  any, and the counter; a region without either attribute is skipped (\<open>continue\<close>).
\<close>

fun scan_regions :: "host \<Rightarrow> string \<Rightarrow> Region list \<Rightarrow> nat \<Rightarrow> Euler option \<times> nat" where
  "scan_regions h m [] k = (None, k)"
| "scan_regions h m (r # rs) k =
     (if region_type r = ''WINDOW'' then
        (case view_rotation r of
           Some q \<Rightarrow> (Some (quaternion_to_euler h q m), Suc k)
         | None \<Rightarrow>
             (case view_matrix r of
                Some vm \<Rightarrow> (Some (matrix_to_euler h (to_3x3 vm) ''XYZ''), Suc k)
              | None \<Rightarrow> scan_regions h m rs (Suc k)))
      else scan_regions h m rs (Suc k))"

fun scan_spaces :: "host \<Rightarrow> string \<Rightarrow> Region list \<Rightarrow> Space list \<Rightarrow> nat \<Rightarrow> Euler option \<times> nat" where
  "scan_spaces h m rs [] k = (None, k)"
| "scan_spaces h m rs (sp # sps) k =
     (if space_type sp = ''VIEW_3D'' then
        (case scan_regions h m rs (Suc k) of
           (Some e, k') \<Rightarrow> (Some e, k')
         | (None, k') \<Rightarrow> scan_spaces h m rs sps k')
      else scan_spaces h m rs sps (Suc k))"

fun scan_areas :: "host \<Rightarrow> string \<Rightarrow> Area list \<Rightarrow> nat \<Rightarrow> Euler option \<times> nat" where
  "scan_areas h m [] k = (None, k)"
| "scan_areas h m (a # as) k =
     (if area_type a = ''VIEW_3D'' then
        (case scan_spaces h m (regions a) (spaces a) (Suc k) of
           (Some e, k') \<Rightarrow> (Some e, k')
         | (None, k') \<Rightarrow> scan_areas h m as k')
      else scan_areas h m as (Suc k))"

definition CURSOR_OT_align_to_view_execute :: "host \<Rightarrow> Context \<Rightarrow> outcome" where
  "CURSOR_OT_align_to_view_execute h c =
     (case scan_areas h (cursor_rotation_mode (cursor (scene c))) (screen_areas c) 0 of
        (Some e, k) \<Rightarrow> finished (set_cursor_rotation e c) k
      | (None, k) \<Rightarrow> cancelled ''Could not determine view orientation'' c k)"

text \<open>
  The host's \<open>bmesh\<close> module has the functions \<open>new\<close>, \<open>from_edit_mesh\<close> and
  \<open>update_edit_mesh\<close>. It has no \<open>from_mesh\<close>: the attribute read in
  \<open>bmesh.from_mesh(obj.data)\<close> raises AttributeError, whatever the mesh.
\<close>

definition bmesh_from_mesh :: "Context \<Rightarrow> py_error + BMFace list" where
  "bmesh_from_mesh c = Inl AttributeError"

definition CURSOR_OT_align_to_surface_execute :: "host \<Rightarrow> Context \<Rightarrow> run" where
  "CURSOR_OT_align_to_surface_execute h c =
     (if mode c \<noteq> ''EDIT_MESH''
      then Returned (cancelled ''Must be in Edit Mode with faces selected'' c 0)
      else
        (case bmesh_from_mesh c of
           Inl e \<Rightarrow> Raised e [] c 0
         | Inr faces \<Rightarrow>
             Returned
               (let (selected_faces, k) =
                      for_each (\<lambda>f acc. if face_select f then acc @ [f] else acc) faces ([], 0)
                in if selected_faces = [] then cancelled ''No faces selected'' c k
                   else
                     (let (avg_normal, k) =
                            for_each (\<lambda>face avg. vec_add avg (face_normal face)) selected_faces
                              ((0, 0, 0), k);
                          normal_length = sqrt ((vec_x avg_normal)\<^sup>2 + (vec_y avg_normal)\<^sup>2
                                                + (vec_z avg_normal)\<^sup>2)
                      in if normal_length > 0 then
                           (let avg_normal = (vec_x avg_normal / normal_length,
                                              vec_y avg_normal / normal_length,
                                              vec_z avg_normal / normal_length);
                                normal_vec = avg_normal;
                                up_vec = (0, 0, 1)
                            in if \<bar>dot normal_vec up_vec\<bar> < 0.99 then
                                 (let rotation_matrix =
                                        quaternion_to_matrix h (rotation_difference h normal_vec up_vec)
                                  in finished (set_cursor_rotation
                                                 (matrix_to_euler h rotation_matrix
                                                    (cursor_rotation_mode (cursor (scene c)))) c) k)
                               else finished (set_cursor_rotation (euler_of (0, 0, 0)) c) k)
                         else cancelled ''Could not calculate surface normal'' c k))))"

datatype orientation_item = FRONT | RIGHT | TOP | BACK | LEFT | BOTTOM

definition CURSOR_OT_set_preset_orientation_execute :: "orientation_item \<Rightarrow> Context \<Rightarrow> outcome" where
  "CURSOR_OT_set_preset_orientation_execute orientation c =
     finished
       (if orientation = FRONT then set_cursor_rotation (euler_of (0, 0, 0)) c
        else if orientation = RIGHT then set_cursor_rotation (euler_of (0, 0, - 1.570796)) c
        else if orientation = TOP then set_cursor_rotation (euler_of (1.570796, 0, 0)) c
        else if orientation = BACK then set_cursor_rotation (euler_of (0, 0, 3.141593)) c
        else if orientation = LEFT then set_cursor_rotation (euler_of (0, 0, 1.570796)) c
        else if orientation = BOTTOM then set_cursor_rotation (euler_of (- 1.570796, 0, 0)) c
        else c) 0"

definition CURSOR_OT_set_to_selection_center_execute :: "Context \<Rightarrow> outcome" where
  "CURSOR_OT_set_to_selection_center_execute c =
     (if selected_objects c = [] then cancelled ''No objects selected'' c 0
      else
        (let ((center, count), k) =
               for_each (\<lambda>i (center, count). (vec_add center (obj_location (objects c i)), count + 1))
                 (selected_objects c) (((0, 0, 0), 0 :: nat), 0)
         in if count > 0 then
              finished (set_cursor_location (vec_x center / real count, vec_y center / real count,
                                             vec_z center / real count) c) k
            else finished c k))"

definition CURSOR_OT_set_to_view_center_execute :: "Context \<Rightarrow> outcome" where
  "CURSOR_OT_set_to_view_center_execute c = finished (set_cursor_location (0, 0, 0) c) 0"

section \<open>Machine Tools detection\<close>

text \<open>
  \<open>addon_modules\<close> of the host lists each module's name with the loaded flag that
  \<open>addon_utils.check\<close> gives for it; \<open>None\<close> stands for an exception of the import or of
  the listing, which the function answers with False.
\<close>

fun scan_modules :: "(string \<times> bool) list \<Rightarrow> nat \<Rightarrow> bool \<times> nat" where
  "scan_modules [] k = (False, k)"
| "scan_modules ((name, loaded) # ms) k =
     (if name \<in> set [''MACHIN3tools'', ''machin3tools''] \<and> loaded then (True, Suc k)
      else scan_modules ms (Suc k))"

definition is_machine_tools_available :: "host \<Rightarrow> bool \<times> nat" where
  "is_machine_tools_available h =
     (case addon_modules h of None \<Rightarrow> (False, 0) | Some ms \<Rightarrow> scan_modules ms 0)"

section \<open>Object operators\<close>

definition quote :: string where
  "quote = [CHR 0x27]"

definition OBJECT_OT_origin_to_cursor_execute :: "host \<Rightarrow> Context \<Rightarrow> run" where
  "OBJECT_OT_origin_to_cursor_execute h c =
     (if selected_objects c = [] then Returned (cancelled ''No objects selected'' c 0)
      else
        (let (available, k) = is_machine_tools_available h;
             issued = (if available
                       then [(INFO, ''Consider using Machine Tools '' @ quote
                                      @ ''machin3.origin_to_cursor'' @ quote
                                      @ '' for advanced options'')]
                       else [])
         in case origin_set h ''ORIGIN_CURSOR'' c of
              Inl e \<Rightarrow> Raised e issued c k
            | Inr c' \<Rightarrow>
                Returned \<lparr>status = FINISHED, reports = issued, after = c', iterations = k\<rparr>))"

definition OBJECT_OT_rotate_axis_execute :: "axis_item \<Rightarrow> direction_item \<Rightarrow> Context \<Rightarrow> outcome" where
  "OBJECT_OT_rotate_axis_execute ax dir c =
     (if selected_objects c = [] then cancelled ''No objects selected'' c 0
      else
        (let step_rad = get_step (scene c);
             delta = (if dir = POS then step_rad else - step_rad);
             (c', k) =
               for_each
                 (\<lambda>i. update_object i
                    (\<lambda>obj. let eul = obj_rotation_euler obj;
                                eul = (if ax = X then eul\<lparr>euler_x := euler_x eul + delta\<rparr>
                                       else if ax = Y then eul\<lparr>euler_y := euler_y eul + delta\<rparr>
                                       else if ax = Z then eul\<lparr>euler_z := euler_z eul + delta\<rparr>
                                       else eul)
                            in obj\<lparr>obj_rotation_euler := eul\<rparr>))
                 (selected_objects c) (c, 0)
         in finished c' k))"

definition OBJECT_OT_reset_orientation_execute :: "Context \<Rightarrow> outcome" where
  "OBJECT_OT_reset_orientation_execute c =
     (if selected_objects c = [] then cancelled ''No objects selected'' c 0
      else
        (let (c', k) =
               for_each (\<lambda>i. update_object i (\<lambda>obj. obj\<lparr>obj_rotation_euler := euler_of (0, 0, 0)\<rparr>))
                 (selected_objects c) (c, 0)
         in finished c' k))"

definition OBJECT_OT_align_to_cursor_execute :: "bool \<Rightarrow> bool \<Rightarrow> host \<Rightarrow> Context \<Rightarrow> run" where
  "OBJECT_OT_align_to_cursor_execute move_objects use_rotation h c =
     (if selected_objects c = [] then Returned (cancelled ''No objects selected'' c 0)
      else
        (let use_offset = \<not> move_objects
         in case snap_selected_to_cursor h use_offset use_rotation c of
              Inl e \<Rightarrow> Raised e [] c 0
            | Inr c' \<Rightarrow> Returned (finished c' 0)))"

definition OBJECT_OT_snap_cursor_to_selected_execute :: "host \<Rightarrow> Context \<Rightarrow> run" where
  "OBJECT_OT_snap_cursor_to_selected_execute h c =
     (if selected_objects c = [] \<and> mode c \<noteq> ''EDIT_MESH''
      then Returned (cancelled ''Nothing selected'' c 0)
      else
        (case snap_cursor_to_selected h c of
           Inl e \<Rightarrow> Raised e [] c 0
         | Inr c' \<Rightarrow> Returned (finished c' 0)))"

definition OBJECT_OT_snap_selected_to_cursor_execute :: "bool \<Rightarrow> host \<Rightarrow> Context \<Rightarrow> run" where
  "OBJECT_OT_snap_selected_to_cursor_execute use_offset h c =
     (if selected_objects c = [] then Returned (cancelled ''No objects selected'' c 0)
      else
        (case snap_selected_to_cursor h use_offset False c of
           Inl e \<Rightarrow> Raised e [] c 0
         | Inr c' \<Rightarrow> Returned (finished c' 0)))"

text \<open>
  The loop over the orientation slots. A slot has no \<open>name\<close>, so the read
  \<open>orientation.name\<close> raises AttributeError at the first slot; it has no \<open>matrix\<close>
  either, so the write \<open>orientation.matrix = ...\<close> would raise too.
\<close>

definition slot_name :: "OrientationSlot \<Rightarrow> py_error + string" where
  "slot_name sl = Inl AttributeError"

definition set_slot_matrix :: "mat4 \<Rightarrow> OrientationSlot \<Rightarrow> py_error + OrientationSlot" where
  "set_slot_matrix m sl = Inl AttributeError"

fun set_first_slot ::
    "string \<Rightarrow> mat4 \<Rightarrow> OrientationSlot list \<Rightarrow> nat \<Rightarrow> (py_error \<times> nat) + (OrientationSlot list \<times> nat)" where
  "set_first_slot name m [] k = Inr ([], k)"
| "set_first_slot name m (sl # sls) k =
     (case slot_name sl of
        Inl e \<Rightarrow> Inl (e, Suc k)
      | Inr n \<Rightarrow>
          if n = name then
            (case set_slot_matrix m sl of
               Inl e \<Rightarrow> Inl (e, Suc k)
             | Inr sl' \<Rightarrow> Inr (sl' # sls, Suc k))
          else
            (case set_first_slot name m sls (Suc k) of
               Inl ek \<Rightarrow> Inl ek
             | Inr (sls', k') \<Rightarrow> Inr (sl # sls', k')))"

definition OBJECT_OT_create_transform_orientation_execute :: "string \<Rightarrow> host \<Rightarrow> Context \<Rightarrow> run" where
  "OBJECT_OT_create_transform_orientation_execute name h c =
     (case create_orientation h name False c of
        Inl e \<Rightarrow> Raised e [] c 0
      | Inr c1 \<Rightarrow>
          (case set_first_slot name (cursor_matrix h (cursor (scene c1)))
                  (transform_orientation_slots (scene c1)) 0 of
             Inl (e, k) \<Rightarrow> Raised e [] c1 k
           | Inr (slots, k) \<Rightarrow>
               Returned
                 \<lparr>status = FINISHED,
                  reports = [(INFO, ''Created transform orientation '' @ quote @ name @ quote
                                    @ '' from cursor'')],
                  after = c1\<lparr>scene := (scene c1)\<lparr>transform_orientation_slots := slots\<rparr>\<rparr>,
                  iterations = k\<rparr>))"

text \<open>
  The Euler type has \<open>to_matrix\<close> and no \<open>to_matrix_4x4\<close>: the attribute read in
  \<open>active_rot.to_matrix_4x4()\<close> raises AttributeError.
\<close>

definition to_matrix_4x4 :: "Euler \<Rightarrow> py_error + mat4" where
  "to_matrix_4x4 e = Inl AttributeError"

definition OBJECT_OT_align_objects_to_each_other_execute :: "host \<Rightarrow> Context \<Rightarrow> run" where
  "OBJECT_OT_align_objects_to_each_other_execute h c =
     (let active = active_object c;
          (selected, k) =
            for_each (\<lambda>obj acc. if Some obj \<noteq> active then acc @ [obj] else acc)
              (selected_objects c) ([], 0)
      in case active of
           None \<Rightarrow> Returned (cancelled ''No active object'' c k)
         | Some a \<Rightarrow>
             if selected = [] then Returned (cancelled ''No other objects selected'' c k)
             else
               (let active_rot = matrix4_to_euler h (obj_matrix_world (objects c a))
                in case for_each_raising
                          (\<lambda>i c'.
                             let world_pos = to_translation (obj_matrix_world (objects c' i));
                                 world_scale = to_scale h (obj_matrix_world (objects c' i))
                             in case to_matrix_4x4 active_rot of
                                  Inl e \<Rightarrow> Inl e
                                | Inr new_matrix \<Rightarrow>
                                    Inr (update_object i
                                           (\<lambda>obj. obj\<lparr>obj_matrix_world :=
                                                      scale_diagonal world_scale
                                                        (set_translation world_pos new_matrix)\<rparr>) c'))
                          selected (c, k) of
                     Inl (e, c', k') \<Rightarrow> Raised e [] c' k'
                   | Inr (c', k') \<Rightarrow> Returned (finished c' k')))"

fun axis_idx :: "axis_item \<Rightarrow> nat" where
  "axis_idx X = 0"
| "axis_idx Y = 1"
| "axis_idx Z = 2"

text \<open>
  \<open>cursor_matrix[axis_idx][:3]\<close> is a slice of a row vector, which the host returns as a
  tuple. \<open>rel_pos.dot\<close> accepts a tuple; a tuple times a float raises TypeError.
\<close>

definition tuple_times_float :: "vec3 \<Rightarrow> real \<Rightarrow> py_error + vec3" where
  "tuple_times_float v t = Inl TypeError"

definition OBJECT_OT_distribute_along_cursor_execute ::
    "real \<Rightarrow> axis_item \<Rightarrow> host \<Rightarrow> Context \<Rightarrow> run" where
  "OBJECT_OT_distribute_along_cursor_execute spacing ax h c =
     (if length (selected_objects c) < 2 then Returned (cancelled ''Select at least 2 objects'' c 0)
      else
        (let cur = cursor (scene c);
             cur_matrix = cursor_matrix h cur;
             objs = selected_objects c;
             (positions, k) =
               for_each
                 (\<lambda>obj positions.
                    let rel_pos = vec_sub (to_translation (obj_matrix_world (objects c obj)))
                                    (cursor_location cur);
                        axis_pos = dot rel_pos (slice3 (mat_row cur_matrix (axis_idx ax)))
                    in positions @ [(axis_pos, obj)])
                 objs ([], 0);
             positions = sort_key fst positions
         in case for_each_raising
                   (\<lambda>(i, (_, obj)) c'.
                      let offset = real i * spacing
                      in case tuple_times_float (slice3 (mat_row cur_matrix (axis_idx ax))) offset of
                           Inl e \<Rightarrow> Inl e
                         | Inr along \<Rightarrow>
                             Inr (update_object obj
                                    (\<lambda>ob. ob\<lparr>obj_location := vec_add (cursor_location cur) along\<rparr>)
                                    c'))
                   (enumerate 0 positions) (c, k) of
              Inl (e, c', k') \<Rightarrow> Raised e [] c' k'
            | Inr (c', k') \<Rightarrow> Returned (finished c' k')))"

definition OBJECT_OT_copy_cursor_location_execute :: "Context \<Rightarrow> outcome" where
  "OBJECT_OT_copy_cursor_location_execute c =
     (if selected_objects c = [] then cancelled ''No objects selected'' c 0
      else
        (let cur_location = cursor_location (cursor (scene c));
             (c', k) =
               for_each (\<lambda>i. update_object i (\<lambda>obj. obj\<lparr>obj_location := cur_location\<rparr>))
                 (selected_objects c) (c, 0)
         in finished c' k))"

definition CURSOR_OT_machine_tools_menu_execute :: "host \<Rightarrow> Context \<Rightarrow> run" where
  "CURSOR_OT_machine_tools_menu_execute h c =
     (case call_menu h ''VIEW3D_MT_cursor_align_machine_tools'' c of
        Inl e \<Rightarrow> Raised e [] c 0
      | Inr c' \<Rightarrow> Returned (finished c' 0))"

section \<open>The registered operators\<close>

text \<open>Every operator class of the add-on, with the properties its \<open>execute\<close> reads.\<close>

datatype operator =
    cursor_reset_orientation
  | cursor_rotate_axis axis_item direction_item
  | cursor_flip_axis axis_item
  | cursor_copy_from_object
  | cursor_apply_to_object
  | cursor_align_to_view
  | cursor_align_to_surface
  | cursor_set_preset_orientation orientation_item
  | cursor_set_to_selection_center
  | cursor_set_to_view_center
  | object_origin_to_cursor
  | object_rotate_axis_step axis_item direction_item
  | object_reset_orientation
  | object_align_to_cursor bool bool
  | object_cursor_to_selected
  | object_selected_to_cursor bool
  | object_create_transform_orientation string
  | object_align_objects_to_each_other
  | object_distribute_along_cursor real axis_item
  | object_copy_cursor_location
  | cursor_machine_tools_menu

text \<open>The \<open>execute\<close> of each operator, as a run.\<close>

fun execute :: "host \<Rightarrow> operator \<Rightarrow> Context \<Rightarrow> run" where
  "execute h cursor_reset_orientation c = Returned (CURSOR_OT_reset_orientation_execute c)"
| "execute h (cursor_rotate_axis ax dir) c = CURSOR_OT_rotate_axis_execute ax dir c"
| "execute h (cursor_flip_axis ax) c = Returned (CURSOR_OT_flip_axis_execute ax c)"
| "execute h cursor_copy_from_object c = Returned (CURSOR_OT_copy_from_object_execute h c)"
| "execute h cursor_apply_to_object c = Returned (CURSOR_OT_apply_to_object_execute h c)"
| "execute h cursor_align_to_view c = Returned (CURSOR_OT_align_to_view_execute h c)"
| "execute h cursor_align_to_surface c = CURSOR_OT_align_to_surface_execute h c"
| "execute h (cursor_set_preset_orientation orientation) c =
     Returned (CURSOR_OT_set_preset_orientation_execute orientation c)"
| "execute h cursor_set_to_selection_center c =
     Returned (CURSOR_OT_set_to_selection_center_execute c)"
| "execute h cursor_set_to_view_center c = Returned (CURSOR_OT_set_to_view_center_execute c)"
| "execute h object_origin_to_cursor c = OBJECT_OT_origin_to_cursor_execute h c"
| "execute h (object_rotate_axis_step ax dir) c =
     Returned (OBJECT_OT_rotate_axis_execute ax dir c)"
| "execute h object_reset_orientation c = Returned (OBJECT_OT_reset_orientation_execute c)"
| "execute h (object_align_to_cursor move_objects use_rotation) c =
     OBJECT_OT_align_to_cursor_execute move_objects use_rotation h c"
| "execute h object_cursor_to_selected c = OBJECT_OT_snap_cursor_to_selected_execute h c"
| "execute h (object_selected_to_cursor use_offset) c =
     OBJECT_OT_snap_selected_to_cursor_execute use_offset h c"
| "execute h (object_create_transform_orientation name) c =
     OBJECT_OT_create_transform_orientation_execute name h c"
| "execute h object_align_objects_to_each_other c =
     OBJECT_OT_align_objects_to_each_other_execute h c"
| "execute h (object_distribute_along_cursor spacing ax) c =
     OBJECT_OT_distribute_along_cursor_execute spacing ax h c"
| "execute h object_copy_cursor_location c = Returned (OBJECT_OT_copy_cursor_location_execute c)"
| "execute h cursor_machine_tools_menu c = CURSOR_OT_machine_tools_menu_execute h c"

section \<open>Notions of the specification\<close>

text \<open>The prior Euler with a delta added to exactly one axis component.\<close>

fun add_to_axis :: "axis_item \<Rightarrow> real \<Rightarrow> Euler \<Rightarrow> Euler" where
  "add_to_axis X d e = e\<lparr>euler_x := euler_x e + d\<rparr>"
| "add_to_axis Y d e = e\<lparr>euler_y := euler_y e + d\<rparr>"
| "add_to_axis Z d e = e\<lparr>euler_z := euler_z e + d\<rparr>"

fun euler_component :: "axis_item \<Rightarrow> Euler \<Rightarrow> real" where
  "euler_component X e = euler_x e"
| "euler_component Y e = euler_y e"
| "euler_component Z e = euler_z e"

text \<open>Every component within \<open>[-pi, pi]\<close>.\<close>

definition within_pi :: "Euler \<Rightarrow> bool" where
  "within_pi e = (- pi \<le> euler_x e \<and> euler_x e \<le> pi \<and> - pi \<le> euler_y e \<and> euler_y e \<le> pi
                  \<and> - pi \<le> euler_z e \<and> euler_z e \<le> pi)"

text \<open>The componentwise sum and the componentwise arithmetic mean of a list of vectors.\<close>

definition vec_sum :: "vec3 list \<Rightarrow> vec3" where
  "vec_sum vs = (sum_list (map vec_x vs), sum_list (map vec_y vs), sum_list (map vec_z vs))"

definition arithmetic_mean :: "vec3 list \<Rightarrow> vec3" where
  "arithmetic_mean vs = vec_scale (vec_sum vs) (1 / real (length vs))"

text \<open>The configured step in radians, negated for the negative direction.\<close>

definition signed_step :: "direction_item \<Rightarrow> Scene \<Rightarrow> real" where
  "signed_step dir sc = (if dir = POS then get_step sc else - get_step sc)"

text \<open>
  The required selection or context of each operator, as the specification lists the ways
  it can be missing: no active object, no selected objects (or faces), not in edit-mesh
  mode, no determinable view, fewer than two objects. A view is determinable when some 3D
  view area has a 3D view space and a window region that gives a view rotation or matrix.
\<close>

definition region_gives_view :: "Region \<Rightarrow> bool" where
  "region_gives_view r =
     (region_type r = ''WINDOW'' \<and> (view_rotation r \<noteq> None \<or> view_matrix r \<noteq> None))"

definition view_determinable :: "Context \<Rightarrow> bool" where
  "view_determinable c =
     list_ex (\<lambda>a. area_type a = ''VIEW_3D''
                   \<and> list_ex (\<lambda>sp. space_type sp = ''VIEW_3D'') (spaces a)
                   \<and> list_ex region_gives_view (regions a))
       (screen_areas c)"

fun requirement_missing :: "operator \<Rightarrow> Context \<Rightarrow> bool" where
  "requirement_missing cursor_reset_orientation c = False"
| "requirement_missing (cursor_rotate_axis ax dir) c = False"
| "requirement_missing (cursor_flip_axis ax) c = False"
| "requirement_missing cursor_copy_from_object c = (active_object c = None)"
| "requirement_missing cursor_apply_to_object c = (selected_objects c = [])"
| "requirement_missing cursor_align_to_view c = (\<not> view_determinable c)"
| "requirement_missing cursor_align_to_surface c =
     (mode c \<noteq> ''EDIT_MESH'' \<or> filter face_select (edit_faces c) = [])"
| "requirement_missing (cursor_set_preset_orientation orientation) c = False"
| "requirement_missing cursor_set_to_selection_center c = (selected_objects c = [])"
| "requirement_missing cursor_set_to_view_center c = False"
| "requirement_missing object_origin_to_cursor c = (selected_objects c = [])"
| "requirement_missing (object_rotate_axis_step ax dir) c = (selected_objects c = [])"
| "requirement_missing object_reset_orientation c = (selected_objects c = [])"
| "requirement_missing (object_align_to_cursor move_objects use_rotation) c = (selected_objects c = [])"
| "requirement_missing object_cursor_to_selected c =
     (selected_objects c = [] \<and> mode c \<noteq> ''EDIT_MESH'')"
| "requirement_missing (object_selected_to_cursor use_offset) c = (selected_objects c = [])"
| "requirement_missing (object_create_transform_orientation name) c = False"
| "requirement_missing object_align_objects_to_each_other c =
     (active_object c = None
      \<or> filter (\<lambda>i. Some i \<noteq> active_object c) (selected_objects c) = [])"
| "requirement_missing (object_distribute_along_cursor spacing ax) c =
     (length (selected_objects c) < 2)"
| "requirement_missing object_copy_cursor_location c = (selected_objects c = [])"
| "requirement_missing cursor_machine_tools_menu c = False"

text \<open>
  The sizes of the finite collections an \<open>execute\<close> loops over: the selected objects (at
  most twice), the areas with their spaces and regions, and the host's add-on modules. The
  loop over the orientation slots raises in its first body, and the loops over the faces
  are not reached.
\<close>

definition areas_size :: "Area list \<Rightarrow> nat" where
  "areas_size as = sum_list (map (\<lambda>a. 1 + length (spaces a) * (1 + length (regions a))) as)"

definition modules_count :: "host \<Rightarrow> nat" where
  "modules_count h = (case addon_modules h of None \<Rightarrow> 0 | Some ms \<Rightarrow> length ms)"

definition work_bound :: "host \<Rightarrow> Context \<Rightarrow> nat" where
  "work_bound h c =
     2 * length (selected_objects c) + areas_size (screen_areas c) + modules_count h + 1"

section \<open>Sample inputs\<close>

text \<open>A concrete host and a concrete scene, on which the theorems below are instantiated.\<close>

definition identity_4x4 :: mat4 where
  "identity_4x4 = ((1, 0, 0, 0), (0, 1, 0, 0), (0, 0, 1, 0), (0, 0, 0, 1))"

definition sample_host :: host where
  "sample_host =
     \<lparr>euler_to_matrix = (\<lambda>e. ((1, 0, 0), (0, 1, 0), (0, 0, 1))),
      matrix_to_euler = (\<lambda>m order. euler_of (0, 0, 0)),
      matrix4_to_euler = (\<lambda>m. euler_of (0, 0, 0)),
      quaternion_to_euler = (\<lambda>q order. euler_of (0, 0, 0)),
      quaternion_to_matrix = (\<lambda>q. ((1, 0, 0), (0, 1, 0), (0, 0, 1))),
      rotation_difference = (\<lambda>v w. (1, 0, 0, 0)),
      to_scale = (\<lambda>m. (1, 1, 1)),
      cursor_matrix = (\<lambda>cur. identity_4x4),
      addon_modules = Some [],
      origin_set = (\<lambda>t c. Inr c),
      snap_selected_to_cursor = (\<lambda>use_offset use_rotation c. Inr c),
      snap_cursor_to_selected = (\<lambda>c. Inr c),
      create_orientation = (\<lambda>name use_view c. Inr c),
      call_menu = (\<lambda>name c. Inr c)\<rparr>"

definition sample_object :: "nat \<Rightarrow> Object" where
  "sample_object i = \<lparr>obj_location = (2 * real i, 4, 6), obj_rotation_euler = euler_of (0, 0, 0),
                      obj_matrix_world = set_translation (2 * real i, 4, 6) identity_4x4\<rparr>"

definition sample_scene :: Scene where
  "sample_scene = \<lparr>cursor = \<lparr>cursor_location = (0, 0, 0), cursor_rotation_euler = euler_of (0, 0, 0),
                               cursor_rotation_mode = ''XYZ''\<rparr>,
                    cursor_align_props = default_props,
                    transform_orientation_slots = []\<rparr>"

definition sample_context :: Context where
  "sample_context = \<lparr>scene = sample_scene, objects = sample_object, selected_objects = [0, 1],
                      active_object = Some 0, mode = ''OBJECT'', edit_faces = [], screen_areas = []\<rparr>"

text \<open>The scene with the custom step chosen and a value beyond the declared maximum written.\<close>

definition custom_scene :: Scene where
  "custom_scene = sample_scene\<lparr>cursor_align_props :=
                    write_custom_step 1000 (default_props\<lparr>rotation_step := CUSTOM\<rparr>)\<rparr>"

text \<open>Edit mode, one face selected with normal along X and one face not selected.\<close>

definition edit_context :: Context where
  "edit_context = sample_context\<lparr>mode := ''EDIT_MESH'',
     edit_faces := [\<lparr>face_select = True, face_normal = (1, 0, 0)\<rparr>,
                    \<lparr>face_select = False, face_normal = (0, 0, 1)\<rparr>]\<rparr>"

text \<open>The sample context with the cursor turned by 4 radians about X, beyond \<open>pi\<close>.\<close>

definition far_context :: Context where
  "far_context = set_cursor_rotation (euler_of (4, 0, 0)) sample_context"

text \<open>The sample context with the four orientation slots a scene has.\<close>

definition orientation_context :: Context where
  "orientation_context = sample_context\<lparr>scene := sample_scene\<lparr>transform_orientation_slots :=
     [\<lparr>slot_type = ''GLOBAL''\<rparr>, \<lparr>slot_type = ''GLOBAL''\<rparr>, \<lparr>slot_type = ''GLOBAL''\<rparr>,
      \<lparr>slot_type = ''GLOBAL''\<rparr>]\<rparr>\<rparr>"

text \<open>
  Nothing selected and no faces; one 3D view area that has three spaces and no region.
\<close>

definition spaces_context :: Context where
  "spaces_context = sample_context\<lparr>selected_objects := [], active_object := None,
     screen_areas := [\<lparr>area_type = ''VIEW_3D'',
                       spaces = [\<lparr>space_type = ''VIEW_3D''\<rparr>, \<lparr>space_type = ''IMAGE_EDITOR''\<rparr>,
                                 \<lparr>space_type = ''OUTLINER''\<rparr>],
                       regions = []\<rparr>]\<rparr>"

section \<open>Properties\<close>

subsection \<open>Loops and angles\<close>

lemma for_each_fold: "for_each body xs (s, k) = (fold body xs s, k + length xs)"
  by (induction xs arbitrary: s k) simp_all

lemma py_float_items:
  "py_float ''90'' = 90" "py_float ''45'' = 45" "py_float ''30'' = 30" "py_float ''15'' = 15"
  by (simp_all add: py_float_def digit_value_def)

lemma stored_props_custom_step:
  "stored_props p \<Longrightarrow> 0.1 \<le> custom_step p \<and> custom_step p \<le> 360"
  by (induction rule: stored_props.induct) (simp_all add: default_props_def write_custom_step_def)

lemma get_step_bounds:
  assumes "0.1 \<le> custom_step (cursor_align_props sc)" "custom_step (cursor_align_props sc) \<le> 360"
  shows "0 < get_step sc \<and> get_step sc \<le> 2 * pi"
proof (cases "rotation_step (cursor_align_props sc)")
  case CUSTOM
  have "0 < custom_step (cursor_align_props sc) * pi" using assms by simp
  moreover have "custom_step (cursor_align_props sc) * pi \<le> 360 * pi"
    using assms by (intro mult_right_mono) simp_all
  ultimately show ?thesis using CUSTOM by (simp add: get_step_def radians_def)
qed (simp_all add: get_step_def radians_def py_float_items)

subsection \<open>Resetting the cursor orientation\<close>

text \<open>
  Claim C5. Executing \<open>cursor.reset_orientation\<close> sets the 3D cursor's Euler rotation to
  exactly (0, 0, 0) and returns FINISHED, in every context and whatever the selection.
\<close>

theorem reset_orientation_zero:
  "cursor_rotation_euler (cursor (scene (after (CURSOR_OT_reset_orientation_execute c))))
     = \<lparr>euler_x = 0, euler_y = 0, euler_z = 0\<rparr>
   \<and> status (CURSOR_OT_reset_orientation_execute c) = FINISHED"
  by (simp add: CURSOR_OT_reset_orientation_execute_def finished_def set_cursor_rotation_def
      euler_of_def)

subsection \<open>Flipping an axis\<close>

text \<open>
  Claim C10. Executing \<open>cursor.flip_axis\<close> twice in succession with the same axis restores
  the cursor's Euler rotation to its original value, for every starting rotation and every
  axis: the context after the second execution is the context before the first.
\<close>

theorem flip_axis_involution:
  "cursor_rotation_euler (cursor (scene
      (after (CURSOR_OT_flip_axis_execute ax (after (CURSOR_OT_flip_axis_execute ax c))))))
     = cursor_rotation_euler (cursor (scene c))
   \<and> after (CURSOR_OT_flip_axis_execute ax (after (CURSOR_OT_flip_axis_execute ax c))) = c"
  by (cases ax)
    (simp_all add: CURSOR_OT_flip_axis_execute_def finished_def set_cursor_rotation_def Let_def)

subsection \<open>The rotation step\<close>

text \<open>
  Claim C6. The custom step angle stored in the scene settings is always within 0.1 to 360
  degrees, and so the step that \<open>get_step\<close> returns is a strictly positive angle of at most
  \<open>2 * pi\<close> radians, for the preset choices and for the custom choice. The stored settings
  are those reached from the declared defaults by property writes.
\<close>

theorem step_angle_range:
  "stored_props (cursor_align_props sc) \<Longrightarrow>
     0.1 \<le> custom_step (cursor_align_props sc) \<and> custom_step (cursor_align_props sc) \<le> 360
     \<and> 0 < get_step sc \<and> get_step sc \<le> 2 * pi"
  using stored_props_custom_step [of "cursor_align_props sc"] get_step_bounds [of sc] by simp

theorem step_angle_range_witness:
  "stored_props (cursor_align_props custom_scene)
   \<and> custom_step (cursor_align_props custom_scene) = 360
   \<and> 0 < get_step custom_scene \<and> get_step custom_scene \<le> 2 * pi"
proof -
  have s: "stored_props (cursor_align_props custom_scene)"
    by (simp add: custom_scene_def stored_props.intros)
  have v: "custom_step (cursor_align_props custom_scene) = 360"
    by (simp add: custom_scene_def write_custom_step_def)
  show ?thesis using s v step_angle_range [OF s] by simp
qed

subsection \<open>Loops over the selected objects\<close>

lemma fold_preserves:
  assumes "\<And>x s. F (body x s) = F s"
  shows "F (fold body xs s) = F s"
  using assms by (induction xs arbitrary: s) simp_all

lemma fold_update_object_preserves:
  assumes "\<And>x ob. P (f x ob) = P ob"
  shows "P (objects (fold (\<lambda>x. update_object (g x) (f x)) xs c) i) = P (objects c i)"
  using assms by (induction xs arbitrary: c) (simp_all add: update_object_def)

lemma fold_update_object_count:
  "objects (fold (\<lambda>j. update_object j f) xs c) i = (f ^^ count_list xs i) (objects c i)"
  by (induction xs arbitrary: c) (simp_all add: update_object_def funpow_swap1)

subsection \<open>Applying the cursor rotation to objects\<close>

lemma apply_cursor_rotation_translation:
  "to_translation (obj_matrix_world (apply_cursor_rotation_to_object h cur obj))
     = to_translation (obj_matrix_world obj)"
  apply (simp add: apply_cursor_rotation_to_object_def Let_def)
  apply (cases "obj_matrix_world obj"; cases "to_scale h (obj_matrix_world obj)";
         cases "euler_to_matrix h (cursor_rotation_euler cur)")
  apply auto
  done

text \<open>
  Claim C8. For every object and every cursor rotation, \<open>apply_cursor_rotation_to_object\<close>
  leaves the translation component of the object's \<open>matrix_world\<close> as it was; hence
  \<open>cursor.apply_to_object\<close> preserves the world position of every object, selected or not.
\<close>

theorem apply_rotation_keeps_translation:
  "to_translation (obj_matrix_world (apply_cursor_rotation_to_object h cur obj))
     = to_translation (obj_matrix_world obj)
   \<and> to_translation (obj_matrix_world (objects (after (CURSOR_OT_apply_to_object_execute h c)) i))
     = to_translation (obj_matrix_world (objects c i))"
proof -
  have "to_translation (obj_matrix_world (objects
          (fold (\<lambda>x. update_object x (apply_cursor_rotation_to_object h (cursor (scene c))))
             (selected_objects c) c) i))
        = to_translation (obj_matrix_world (objects c i))"
    by (rule fold_update_object_preserves
          [where P = "\<lambda>ob. to_translation (obj_matrix_world ob)" and g = "\<lambda>x. x"
             and f = "\<lambda>x. apply_cursor_rotation_to_object h (cursor (scene c))"])
       (rule apply_cursor_rotation_translation)
  then show ?thesis
    by (simp add: CURSOR_OT_apply_to_object_execute_def Let_def for_each_fold finished_def
        cancelled_def apply_cursor_rotation_translation)
qed

theorem apply_rotation_keeps_translation_witness:
  "to_translation (obj_matrix_world (objects
       (after (CURSOR_OT_apply_to_object_execute sample_host sample_context)) 1)) = (2, 4, 6)"
  using apply_rotation_keeps_translation [of sample_host "cursor sample_scene" "sample_object 1"
      sample_context 1]
  by (simp add: sample_context_def sample_object_def identity_4x4_def)

subsection \<open>The cursor at the centre of the selection\<close>

lemma vec_add_assoc: "vec_add (vec_add a b) c = vec_add a (vec_add b c)"
  by (cases a; cases b; cases c) simp

lemma vec_add_zero: "vec_add (0, 0, 0) v = v"
  by (cases v) simp

lemma vec_sum_Cons: "vec_sum (v # vs) = vec_add v (vec_sum vs)"
  by (cases v) (simp add: vec_sum_def)

lemma vec_scale_components: "(vec_x v / t, vec_y v / t, vec_z v / t) = vec_scale v (1 / t)"
  by (cases v) simp

lemma center_loop:
  "fold (\<lambda>i (center, count). (vec_add center (loc i), Suc count)) xs (acc, n)
     = (vec_add acc (vec_sum (map loc xs)), n + length xs)"
proof (induction xs arbitrary: acc n)
  case Nil
  show ?case by (cases acc) (simp add: vec_sum_def)
next
  case (Cons x xs)
  show ?case by (simp add: Cons.IH vec_sum_Cons vec_add_assoc)
qed

text \<open>
  Claim C4. For every non-empty selection, executing \<open>cursor.set_to_selection_center\<close> sets
  the cursor's location to the componentwise arithmetic mean of the selected objects'
  location vectors and changes nothing else: the context after it is the context before it
  with that one location written.
\<close>

theorem selection_center_is_mean:
  "selected_objects c \<noteq> [] \<Longrightarrow>
     after (CURSOR_OT_set_to_selection_center_execute c)
       = set_cursor_location
           (arithmetic_mean (map (\<lambda>i. obj_location (objects c i)) (selected_objects c))) c
     \<and> status (CURSOR_OT_set_to_selection_center_execute c) = FINISHED"
  by (simp add: CURSOR_OT_set_to_selection_center_execute_def for_each_fold center_loop
      vec_add_zero vec_scale_components arithmetic_mean_def finished_def)

theorem selection_center_is_mean_witness:
  "selected_objects sample_context \<noteq> []
   \<and> cursor_location (cursor (scene
        (after (CURSOR_OT_set_to_selection_center_execute sample_context)))) = (1, 4, 6)"
proof -
  have s: "selected_objects sample_context \<noteq> []" by (simp add: sample_context_def)
  show ?thesis using s selection_center_is_mean [OF s]
    by (simp add: sample_context_def sample_object_def arithmetic_mean_def vec_sum_def
        set_cursor_location_def)
qed

subsection \<open>Rotating the cursor about an axis\<close>

lemma rotate_euler_raises: "rotate_euler e ax d = Inl AttributeError"
  by (simp add: rotate_euler_def Let_def normalized_def)

lemma rotate_axis_raises: "CURSOR_OT_rotate_axis_execute ax dir c = Raised AttributeError [] c 0"
  by (simp add: CURSOR_OT_rotate_axis_execute_def Let_def rotate_euler_raises)

lemma get_step_sample: "get_step sample_scene = pi / 2"
  by (simp add: get_step_def sample_scene_def default_props_def radians_def py_float_items)

text \<open>
  Claim C3 says that \<open>cursor.rotate_axis\<close> sets the cursor rotation to the prior Euler with
  the signed step added to the chosen axis component. The code does not: for every axis,
  direction and context, \<open>rotate_euler\<close> raises AttributeError at \<open>new_eul.normalized()\<close>
  before the rotation is assigned, so the operator raises and the context stays as it was.
  On the sample context, a positive step about Z leaves the rotation (0, 0, 0) where the
  claim gives (0, 0, pi / 2).
\<close>

theorem rotate_axis_raises_before_assignment:
  "CURSOR_OT_rotate_axis_execute ax dir c = Raised AttributeError [] c 0
   \<and> cursor_rotation_euler (cursor (scene (run_after
        (CURSOR_OT_rotate_axis_execute Z POS sample_context))))
       = \<lparr>euler_x = 0, euler_y = 0, euler_z = 0\<rparr>
   \<and> add_to_axis Z (signed_step POS (scene sample_context))
         (cursor_rotation_euler (cursor (scene sample_context)))
       = \<lparr>euler_x = 0, euler_y = 0, euler_z = pi / 2\<rparr>"
proof -
  have st: "signed_step POS (scene sample_context) = pi / 2"
    using get_step_sample by (simp add: signed_step_def sample_context_def)
  have r: "cursor_rotation_euler (cursor (scene sample_context)) = euler_of (0, 0, 0)"
    by (simp add: sample_context_def sample_scene_def)
  show ?thesis
    unfolding rotate_axis_raises st by (simp add: r euler_of_def)
qed

subsection \<open>Cursor rotation left as it was, free object rotation\<close>

lemma object_rotate_after:
  "selected_objects c \<noteq> [] \<Longrightarrow>
   after (OBJECT_OT_rotate_axis_execute ax dir c)
     = fold (\<lambda>i. update_object i
               (\<lambda>obj. obj\<lparr>obj_rotation_euler :=
                          add_to_axis ax (signed_step dir (scene c)) (obj_rotation_euler obj)\<rparr>))
         (selected_objects c) c"
  by (cases ax)
    (simp_all add: OBJECT_OT_rotate_axis_execute_def Let_def for_each_fold finished_def
      signed_step_def)

lemma add_to_axis_funpow:
  "((\<lambda>obj. obj\<lparr>obj_rotation_euler := add_to_axis ax d (obj_rotation_euler obj)\<rparr>) ^^ m) ob
     = ob\<lparr>obj_rotation_euler := add_to_axis ax (real m * d) (obj_rotation_euler ob)\<rparr>"
  (is "(?F ^^ m) ob = _")
proof (induction m)
  case 0
  show ?case by (cases ax) simp_all
next
  case (Suc m)
  have "(?F ^^ Suc m) ob = ?F ((?F ^^ m) ob)" by simp
  also have "\<dots> = ?F (ob\<lparr>obj_rotation_euler := add_to_axis ax (real m * d) (obj_rotation_euler ob)\<rparr>)"
    by (simp only: Suc)
  also have "\<dots> = ob\<lparr>obj_rotation_euler := add_to_axis ax (real (Suc m) * d) (obj_rotation_euler ob)\<rparr>"
    by (cases ax) (simp_all add: algebra_simps)
  finally show ?case .
qed

lemma object_rotate_objects:
  "objects (after (OBJECT_OT_rotate_axis_execute ax dir c)) i
     = (objects c i)\<lparr>obj_rotation_euler :=
          add_to_axis ax (real (count_list (selected_objects c) i) * signed_step dir (scene c))
            (obj_rotation_euler (objects c i))\<rparr>"
proof (cases "selected_objects c = []")
  case True
  then show ?thesis
    by (cases ax) (simp_all add: OBJECT_OT_rotate_axis_execute_def cancelled_def)
next
  case False
  then show ?thesis
    by (simp add: object_rotate_after fold_update_object_count add_to_axis_funpow)
qed

lemma object_rotate_frame:
  "scene (after (OBJECT_OT_rotate_axis_execute ax dir c)) = scene c"
  "selected_objects (after (OBJECT_OT_rotate_axis_execute ax dir c)) = selected_objects c"
proof -
  have s: "scene (fold (\<lambda>i. update_object i f) xs c) = scene c" for f xs
    by (rule fold_preserves) (simp add: update_object_def)
  have t: "selected_objects (fold (\<lambda>i. update_object i f) xs c) = selected_objects c" for f xs
    by (rule fold_preserves) (simp add: update_object_def)
  show "scene (after (OBJECT_OT_rotate_axis_execute ax dir c)) = scene c"
    by (simp add: OBJECT_OT_rotate_axis_execute_def Let_def for_each_fold finished_def
        cancelled_def s)
  show "selected_objects (after (OBJECT_OT_rotate_axis_execute ax dir c)) = selected_objects c"
    by (simp add: OBJECT_OT_rotate_axis_execute_def Let_def for_each_fold finished_def
        cancelled_def t)
qed

lemma euler_component_add: "euler_component ax (add_to_axis ax d e) = euler_component ax e + d"
  by (cases ax) simp_all

lemma object_rotate_component:
  "euler_component ax (obj_rotation_euler (objects (after (OBJECT_OT_rotate_axis_execute ax dir c)) i))
     = euler_component ax (obj_rotation_euler (objects c i))
       + real (count_list (selected_objects c) i) * signed_step dir (scene c)"
  by (simp add: object_rotate_objects euler_component_add)

lemma object_rotate_iterated:
  "scene (((\<lambda>c. after (OBJECT_OT_rotate_axis_execute ax dir c)) ^^ n) c) = scene c
   \<and> selected_objects (((\<lambda>c. after (OBJECT_OT_rotate_axis_execute ax dir c)) ^^ n) c)
       = selected_objects c
   \<and> euler_component ax (obj_rotation_euler
        (objects (((\<lambda>c. after (OBJECT_OT_rotate_axis_execute ax dir c)) ^^ n) c) i))
       = euler_component ax (obj_rotation_euler (objects c i))
         + real n * (real (count_list (selected_objects c) i) * signed_step dir (scene c))"
proof (induction n)
  case 0
  show ?case by simp
next
  case (Suc n)
  then show ?case
    by (simp add: object_rotate_frame object_rotate_component algebra_simps)
qed

lemma count_list_pos: "i \<in> set xs \<Longrightarrow> 0 < count_list xs i"
  by (induction xs) auto

lemma far_rotation_outside: "\<not> within_pi (euler_of (4, 0, 0))"
  using pi_less_4 by (simp add: within_pi_def euler_of_def)

text \<open>
  Claim C9 says that the Euler \<open>rotate_euler\<close> returns has every component within
  \<open>[-pi, pi]\<close>, so that \<open>cursor.rotate_axis\<close> leaves the cursor's rotation within that
  bound, whereas \<open>object.rotate_axis_step\<close> does not normalise. The code does not do the
  first: \<open>rotate_euler\<close> returns no Euler, it raises for every Euler, axis name and delta,
  and \<open>cursor.rotate_axis\<close> leaves the context as it was, so that a rotation of 4 radians
  about X stays outside the bound. The second holds: an object selected once gets exactly
  the signed step added to the chosen component, and under repeated execution the
  component of a selected object exceeds every bound.
\<close>

theorem rotate_euler_raises_object_rotation_unbounded:
  "rotate_euler e ax_name d = Inl AttributeError
   \<and> run_after (CURSOR_OT_rotate_axis_execute ax dir c) = c
   \<and> \<not> within_pi (cursor_rotation_euler (cursor (scene (run_after
          (CURSOR_OT_rotate_axis_execute X POS far_context)))))
   \<and> (count_list (selected_objects c) i = 1 \<longrightarrow>
        obj_rotation_euler (objects (after (OBJECT_OT_rotate_axis_execute ax dir c)) i)
          = add_to_axis ax (signed_step dir (scene c)) (obj_rotation_euler (objects c i)))
   \<and> (i \<in> set (selected_objects c) \<and> stored_props (cursor_align_props (scene c)) \<longrightarrow>
        (\<forall>bound. \<exists>n. bound < euler_component ax (obj_rotation_euler
            (objects (((\<lambda>c. after (OBJECT_OT_rotate_axis_execute ax POS c)) ^^ n) c) i))))"
proof (intro conjI impI allI)
  show "rotate_euler e ax_name d = Inl AttributeError" by (rule rotate_euler_raises)
  show "run_after (CURSOR_OT_rotate_axis_execute ax dir c) = c"
    by (simp add: rotate_axis_raises)
  show "\<not> within_pi (cursor_rotation_euler (cursor (scene (run_after
          (CURSOR_OT_rotate_axis_execute X POS far_context)))))"
    using far_rotation_outside
    by (simp add: rotate_axis_raises far_context_def set_cursor_rotation_def)
  show "obj_rotation_euler (objects (after (OBJECT_OT_rotate_axis_execute ax dir c)) i)
          = add_to_axis ax (signed_step dir (scene c)) (obj_rotation_euler (objects c i))"
    if "count_list (selected_objects c) i = 1"
    using that by (simp add: object_rotate_objects)
next
  fix bound :: real
  assume h: "i \<in> set (selected_objects c) \<and> stored_props (cursor_align_props (scene c))"
  then have "0 < get_step (scene c)"
    using stored_props_custom_step [of "cursor_align_props (scene c)"] get_step_bounds [of "scene c"]
    by simp
  moreover have "0 < real (count_list (selected_objects c) i)"
    using h count_list_pos [of i "selected_objects c"] by simp
  ultimately have pos: "0 < real (count_list (selected_objects c) i) * signed_step POS (scene c)"
    by (simp add: signed_step_def)
  obtain n where "bound - euler_component ax (obj_rotation_euler (objects c i))
      < real n * (real (count_list (selected_objects c) i) * signed_step POS (scene c))"
    using reals_Archimedean3 [OF pos] by blast
  then have "bound < euler_component ax (obj_rotation_euler
            (objects (((\<lambda>c. after (OBJECT_OT_rotate_axis_execute ax POS c)) ^^ n) c) i))"
    using object_rotate_iterated [where ax = ax and dir = POS and n = n and c = c and i = i]
    by linarith
  then show "\<exists>n. bound < euler_component ax (obj_rotation_euler
            (objects (((\<lambda>c. after (OBJECT_OT_rotate_axis_execute ax POS c)) ^^ n) c) i))"
    by blast
qed

theorem rotate_euler_raises_object_rotation_unbounded_witness:
  "count_list (selected_objects sample_context) 0 = 1
   \<and> obj_rotation_euler (objects (after (OBJECT_OT_rotate_axis_execute Z POS sample_context)) 0)
       = \<lparr>euler_x = 0, euler_y = 0, euler_z = pi / 2\<rparr>
   \<and> 0 \<in> set (selected_objects sample_context)
   \<and> stored_props (cursor_align_props (scene sample_context))
   \<and> (\<exists>n. 100 < euler_component Z (obj_rotation_euler
            (objects (((\<lambda>c. after (OBJECT_OT_rotate_axis_execute Z POS c)) ^^ n) sample_context) 0)))"
proof -
  have a: "count_list (selected_objects sample_context) 0 = 1"
    by (simp add: sample_context_def)
  have b: "0 \<in> set (selected_objects sample_context)
           \<and> stored_props (cursor_align_props (scene sample_context))"
    by (simp add: sample_context_def sample_scene_def stored_props.initial)
  have st: "signed_step POS (scene sample_context) = pi / 2"
    using get_step_sample by (simp add: signed_step_def sample_context_def)
  have r: "obj_rotation_euler (objects sample_context 0) = euler_of (0, 0, 0)"
    by (simp add: sample_context_def sample_object_def)
  note t = rotate_euler_raises_object_rotation_unbounded
             [of "euler_of (0, 0, 0)" "''Z''" 0 Z POS sample_context 0]
  have "obj_rotation_euler (objects (after (OBJECT_OT_rotate_axis_execute Z POS sample_context)) 0)
          = add_to_axis Z (signed_step POS (scene sample_context))
              (obj_rotation_euler (objects sample_context 0))"
    using a t by blast
  then have c: "obj_rotation_euler (objects (after (OBJECT_OT_rotate_axis_execute Z POS sample_context)) 0)
       = \<lparr>euler_x = 0, euler_y = 0, euler_z = pi / 2\<rparr>"
    unfolding st r by (simp add: euler_of_def)
  have d: "\<exists>n. 100 < euler_component Z (obj_rotation_euler
            (objects (((\<lambda>c. after (OBJECT_OT_rotate_axis_execute Z POS c)) ^^ n) sample_context) 0))"
    using b t by blast
  show ?thesis using a b c d by simp
qed

subsection \<open>Aligning the cursor to the selected faces\<close>

text \<open>
  Claim C2 says that \<open>cursor.align_to_surface\<close>, in edit-mesh mode with faces selected whose
  normals do not sum to zero, sets the cursor rotation from the rotation difference between
  the averaged normal and the up vector. The code does not: in edit-mesh mode it raises
  AttributeError at \<open>bmesh.from_mesh(obj.data)\<close>, before any face is read, and the context
  stays as it was.
\<close>

theorem align_to_surface_raises_in_edit_mode:
  "mode c = ''EDIT_MESH'' \<Longrightarrow>
     CURSOR_OT_align_to_surface_execute h c = Raised AttributeError [] c 0"
  by (simp add: CURSOR_OT_align_to_surface_execute_def bmesh_from_mesh_def)

theorem align_to_surface_raises_in_edit_mode_witness:
  "mode edit_context = ''EDIT_MESH''
   \<and> map face_normal (filter face_select (edit_faces edit_context)) = [(1, 0, 0)]
   \<and> CURSOR_OT_align_to_surface_execute sample_host edit_context
       = Raised AttributeError [] edit_context 0
   \<and> cursor_rotation_euler (cursor (scene (run_after
        (CURSOR_OT_align_to_surface_execute sample_host edit_context))))
       = \<lparr>euler_x = 0, euler_y = 0, euler_z = 0\<rparr>"
proof -
  have a: "mode edit_context = ''EDIT_MESH''" by (simp add: edit_context_def)
  have n: "map face_normal (filter face_select (edit_faces edit_context)) = [(1, 0, 0)]"
    by (simp add: edit_context_def)
  have r: "cursor_rotation_euler (cursor (scene edit_context)) = \<lparr>euler_x = 0, euler_y = 0, euler_z = 0\<rparr>"
    by (simp add: edit_context_def sample_context_def sample_scene_def euler_of_def)
  show ?thesis
    using a n r align_to_surface_raises_in_edit_mode [OF a, of sample_host] by simp
qed

subsection \<open>Loops that raise\<close>

lemma for_each_raising_first:
  assumes "xs \<noteq> []" and "\<And>x s. body x s = Inl e"
  shows "for_each_raising body xs (s, k) = Inl (e, s, Suc k)"
  using assms by (cases xs) simp_all

lemma select_loop:
  "fold (\<lambda>f acc. if P f then acc @ [f] else acc) fs acc = acc @ filter P fs"
  by (induction fs arbitrary: acc) simp_all

lemma append_loop: "fold (\<lambda>x acc. acc @ [f x]) xs acc = acc @ map f xs"
  by (induction xs arbitrary: acc) simp_all

lemma set_first_slot_raises:
  "set_first_slot name m sls k = (if sls = [] then Inr ([], k) else Inl (AttributeError, Suc k))"
  by (cases sls) (simp_all add: slot_name_def)

lemma align_objects_run:
  "OBJECT_OT_align_objects_to_each_other_execute h c
     = (if active_object c = None
          then Returned (cancelled ''No active object'' c (length (selected_objects c)))
        else if filter (\<lambda>i. Some i \<noteq> active_object c) (selected_objects c) = []
          then Returned (cancelled ''No other objects selected'' c (length (selected_objects c)))
        else Raised AttributeError [] c (Suc (length (selected_objects c))))"
proof (cases "active_object c")
  case None
  then show ?thesis
    by (simp add: OBJECT_OT_align_objects_to_each_other_execute_def Let_def for_each_fold
        select_loop)
next
  case (Some a)
  show ?thesis
  proof (cases "filter (\<lambda>i. Some i \<noteq> active_object c) (selected_objects c) = []")
    case True
    then show ?thesis
      using Some
      by (simp add: OBJECT_OT_align_objects_to_each_other_execute_def Let_def for_each_fold
          select_loop)
  next
    case False
    have "for_each_raising
            (\<lambda>i c'. let world_pos = to_translation (obj_matrix_world (objects c' i));
                         world_scale = to_scale h (obj_matrix_world (objects c' i))
                     in case to_matrix_4x4 (matrix4_to_euler h (obj_matrix_world (objects c a))) of
                          Inl e \<Rightarrow> Inl e
                        | Inr new_matrix \<Rightarrow>
                            Inr (update_object i
                                   (\<lambda>obj. obj\<lparr>obj_matrix_world :=
                                              scale_diagonal world_scale
                                                (set_translation world_pos new_matrix)\<rparr>) c'))
            (filter (\<lambda>i. Some i \<noteq> active_object c) (selected_objects c))
            (c, length (selected_objects c))
          = Inl (AttributeError, c, Suc (length (selected_objects c)))"
      by (rule for_each_raising_first [OF False]) (simp add: to_matrix_4x4_def Let_def)
    then show ?thesis
      using Some False
      by (simp add: OBJECT_OT_align_objects_to_each_other_execute_def Let_def for_each_fold
          select_loop)
  qed
qed

lemma distribute_run:
  "OBJECT_OT_distribute_along_cursor_execute spacing ax h c
     = (if length (selected_objects c) < 2
          then Returned (cancelled ''Select at least 2 objects'' c 0)
        else Raised TypeError [] c (Suc (length (selected_objects c))))"
proof (cases "length (selected_objects c) < 2")
  case True
  then show ?thesis by (simp add: OBJECT_OT_distribute_along_cursor_execute_def)
next
  case False
  then have ne: "enumerate 0 (sort_key fst
      (map (\<lambda>obj. (dot (vec_sub (to_translation (obj_matrix_world (objects c obj)))
                           (cursor_location (cursor (scene c))))
                      (slice3 (mat_row (cursor_matrix h (cursor (scene c))) (axis_idx ax))), obj))
         (selected_objects c))) \<noteq> []"
    by (cases "selected_objects c") (simp_all add: enumerate_eq_zip)
  have "for_each_raising
          (\<lambda>(i, (_, obj)) c'.
             let offset = real i * spacing
             in case tuple_times_float
                       (slice3 (mat_row (cursor_matrix h (cursor (scene c))) (axis_idx ax))) offset of
                  Inl e \<Rightarrow> Inl e
                | Inr along \<Rightarrow>
                    Inr (update_object obj
                           (\<lambda>ob. ob\<lparr>obj_location :=
                                     vec_add (cursor_location (cursor (scene c))) along\<rparr>) c'))
          (enumerate 0 (sort_key fst
             (map (\<lambda>obj. (dot (vec_sub (to_translation (obj_matrix_world (objects c obj)))
                                  (cursor_location (cursor (scene c))))
                             (slice3 (mat_row (cursor_matrix h (cursor (scene c))) (axis_idx ax))), obj))
                (selected_objects c))))
          (c, length (selected_objects c))
        = Inl (TypeError, c, Suc (length (selected_objects c)))"
    by (rule for_each_raising_first [OF ne]) (simp add: tuple_times_float_def Let_def split_def)
  then show ?thesis
    using False
    by (simp add: OBJECT_OT_distribute_along_cursor_execute_def Let_def for_each_fold append_loop)
qed

lemma create_orientation_run:
  "OBJECT_OT_create_transform_orientation_execute name h c
     = (case create_orientation h name False c of
          Inl e \<Rightarrow> Raised e [] c 0
        | Inr c1 \<Rightarrow>
            if transform_orientation_slots (scene c1) = []
            then Returned
                   \<lparr>status = FINISHED,
                    reports = [(INFO, ''Created transform orientation '' @ quote @ name @ quote
                                      @ '' from cursor'')],
                    after = c1\<lparr>scene := (scene c1)\<lparr>transform_orientation_slots := []\<rparr>\<rparr>,
                    iterations = 0\<rparr>
            else Raised AttributeError [] c1 1)"
  by (simp add: OBJECT_OT_create_transform_orientation_execute_def set_first_slot_raises
      split: sum.splits)

subsection \<open>Failures with nothing missing\<close>

text \<open>
  Claim C1 says that an operator fails only when its required selection or context is
  missing, and then with a warning, CANCELLED and no state change. The code has other
  failures: with everything an operator requires present, \<open>cursor.rotate_axis\<close>,
  \<open>cursor.align_to_surface\<close>, \<open>object.align_objects_to_each_other\<close>,
  \<open>object.distribute_along_cursor\<close> and \<open>object.create_transform_orientation\<close> raise an
  exception, with no warning and no status returned. And in edit-mesh mode with no face
  selected, \<open>cursor.align_to_surface\<close> raises before its guard instead of warning.
\<close>

theorem operators_raise_with_nothing_missing:
  "\<not> requirement_missing (cursor_rotate_axis Z POS) sample_context
   \<and> execute sample_host (cursor_rotate_axis Z POS) sample_context
       = Raised AttributeError [] sample_context 0
   \<and> \<not> requirement_missing cursor_align_to_surface edit_context
   \<and> execute sample_host cursor_align_to_surface edit_context
       = Raised AttributeError [] edit_context 0
   \<and> \<not> requirement_missing object_align_objects_to_each_other sample_context
   \<and> execute sample_host object_align_objects_to_each_other sample_context
       = Raised AttributeError [] sample_context 3
   \<and> \<not> requirement_missing (object_distribute_along_cursor 1 Z) sample_context
   \<and> execute sample_host (object_distribute_along_cursor 1 Z) sample_context
       = Raised TypeError [] sample_context 3
   \<and> \<not> requirement_missing (object_create_transform_orientation ''Cursor'') orientation_context
   \<and> execute sample_host (object_create_transform_orientation ''Cursor'') orientation_context
       = Raised AttributeError [] orientation_context 1
   \<and> requirement_missing cursor_align_to_surface (edit_context\<lparr>edit_faces := []\<rparr>)
   \<and> execute sample_host cursor_align_to_surface (edit_context\<lparr>edit_faces := []\<rparr>)
       = Raised AttributeError [] (edit_context\<lparr>edit_faces := []\<rparr>) 0"
proof -
  have a: "execute sample_host (cursor_rotate_axis Z POS) sample_context
             = Raised AttributeError [] sample_context 0"
    by (simp add: rotate_axis_raises)
  have b: "\<not> requirement_missing cursor_align_to_surface edit_context
           \<and> execute sample_host cursor_align_to_surface edit_context
               = Raised AttributeError [] edit_context 0"
    by (simp add: CURSOR_OT_align_to_surface_execute_def bmesh_from_mesh_def edit_context_def)
  have d: "\<not> requirement_missing object_align_objects_to_each_other sample_context
           \<and> execute sample_host object_align_objects_to_each_other sample_context
               = Raised AttributeError [] sample_context 3"
    by (simp add: align_objects_run) (simp add: sample_context_def)
  have e: "\<not> requirement_missing (object_distribute_along_cursor 1 Z) sample_context
           \<and> execute sample_host (object_distribute_along_cursor 1 Z) sample_context
               = Raised TypeError [] sample_context 3"
    by (simp add: distribute_run) (simp add: sample_context_def)
  have f: "execute sample_host (object_create_transform_orientation ''Cursor'') orientation_context
             = Raised AttributeError [] orientation_context 1"
    by (simp add: create_orientation_run) (simp add: sample_host_def orientation_context_def)
  have g: "requirement_missing cursor_align_to_surface (edit_context\<lparr>edit_faces := []\<rparr>)
           \<and> execute sample_host cursor_align_to_surface (edit_context\<lparr>edit_faces := []\<rparr>)
               = Raised AttributeError [] (edit_context\<lparr>edit_faces := []\<rparr>) 0"
    by (simp add: CURSOR_OT_align_to_surface_execute_def bmesh_from_mesh_def edit_context_def)
  show ?thesis using a b d e f g by simp
qed

subsection \<open>Bounded work\<close>

lemma align_to_view_cases:
  "CURSOR_OT_align_to_view_execute h c
     = (case fst (scan_areas h (cursor_rotation_mode (cursor (scene c))) (screen_areas c) 0) of
          Some e \<Rightarrow> finished (set_cursor_rotation e c)
                      (snd (scan_areas h (cursor_rotation_mode (cursor (scene c))) (screen_areas c) 0))
        | None \<Rightarrow> cancelled ''Could not determine view orientation'' c
                      (snd (scan_areas h (cursor_rotation_mode (cursor (scene c))) (screen_areas c) 0)))"
  by (cases "scan_areas h (cursor_rotation_mode (cursor (scene c))) (screen_areas c) 0")
     (simp add: CURSOR_OT_align_to_view_execute_def split: option.splits)

lemma align_to_view_status:
  "status (CURSOR_OT_align_to_view_execute h c) = CANCELLED
   \<or> status (CURSOR_OT_align_to_view_execute h c) = FINISHED"
  by (simp add: align_to_view_cases finished_def cancelled_def split: option.splits)

lemma scan_regions_count: "snd (scan_regions h m rs k) \<le> k + length rs"
proof (induction rs arbitrary: k)
  case Nil
  show ?case by simp
next
  case (Cons r rs)
  show ?case using Cons.IH [of "Suc k"] by (simp split: option.splits)
qed

lemma scan_spaces_count: "snd (scan_spaces h m rs sps k) \<le> k + length sps * (1 + length rs)"
proof (induction sps arbitrary: k)
  case Nil
  show ?case by simp
next
  case (Cons sp sps)
  show ?case
  proof (cases "space_type sp = ''VIEW_3D''")
    case True
    obtain e k' where s: "scan_regions h m rs (Suc k) = (e, k')"
      by (cases "scan_regions h m rs (Suc k)")
    have k': "k' \<le> Suc k + length rs" using scan_regions_count [of h m rs "Suc k"] s by simp
    show ?thesis
    proof (cases e)
      case None
      then show ?thesis using True s k' Cons.IH [of k'] by simp
    next
      case (Some a)
      then show ?thesis using True s k' by simp
    qed
  next
    case False
    then show ?thesis using Cons.IH [of "Suc k"] by simp
  qed
qed

lemma scan_areas_count: "snd (scan_areas h m as k) \<le> k + areas_size as"
proof (induction as arbitrary: k)
  case Nil
  show ?case by (simp add: areas_size_def)
next
  case (Cons a as)
  show ?case
  proof (cases "area_type a = ''VIEW_3D''")
    case True
    obtain e k' where s: "scan_spaces h m (regions a) (spaces a) (Suc k) = (e, k')"
      by (cases "scan_spaces h m (regions a) (spaces a) (Suc k)")
    have k': "k' \<le> Suc k + length (spaces a) * (1 + length (regions a))"
      using scan_spaces_count [of h m "regions a" "spaces a" "Suc k"] s by simp
    show ?thesis
    proof (cases e)
      case None
      then show ?thesis using True s k' Cons.IH [of k'] by (simp add: areas_size_def)
    next
      case (Some b)
      then show ?thesis using True s k' by (simp add: areas_size_def)
    qed
  next
    case False
    then show ?thesis using Cons.IH [of "Suc k"] by (simp add: areas_size_def)
  qed
qed

lemma scan_modules_count: "snd (scan_modules ms k) \<le> k + length ms"
proof (induction ms arbitrary: k)
  case Nil
  show ?case by simp
next
  case (Cons mo ms)
  show ?case using Cons.IH [of "Suc k"] by (cases mo) simp
qed

lemma iterations_align_to_view:
  "iterations (CURSOR_OT_align_to_view_execute h c) \<le> areas_size (screen_areas c)"
  using scan_areas_count [of h "cursor_rotation_mode (cursor (scene c))" "screen_areas c" 0]
  by (simp add: align_to_view_cases finished_def cancelled_def split: option.splits)

lemma is_machine_tools_available_count: "snd (is_machine_tools_available h) \<le> modules_count h"
proof (cases "addon_modules h")
  case None
  then show ?thesis by (simp add: is_machine_tools_available_def)
next
  case (Some ms)
  then show ?thesis
    using scan_modules_count [of ms 0]
    by (simp add: is_machine_tools_available_def modules_count_def)
qed

lemma returned_status:
  "status out = FINISHED \<or> status out = CANCELLED \<Longrightarrow>
     run_status (Returned out) = Some FINISHED \<or> run_status (Returned out) = Some CANCELLED
     \<or> (\<exists>e. run_error (Returned out) = Some e)"
  by auto

lemma outcome_status:
  "status (CURSOR_OT_reset_orientation_execute c) = FINISHED"
  "status (CURSOR_OT_flip_axis_execute ax c) = FINISHED"
  "status (CURSOR_OT_copy_from_object_execute h c) = FINISHED
   \<or> status (CURSOR_OT_copy_from_object_execute h c) = CANCELLED"
  "status (CURSOR_OT_apply_to_object_execute h c) = FINISHED
   \<or> status (CURSOR_OT_apply_to_object_execute h c) = CANCELLED"
  "status (CURSOR_OT_set_preset_orientation_execute orientation c) = FINISHED"
  "status (CURSOR_OT_set_to_selection_center_execute c) = FINISHED
   \<or> status (CURSOR_OT_set_to_selection_center_execute c) = CANCELLED"
  "status (CURSOR_OT_set_to_view_center_execute c) = FINISHED"
  "status (OBJECT_OT_rotate_axis_execute ax dir c) = FINISHED
   \<or> status (OBJECT_OT_rotate_axis_execute ax dir c) = CANCELLED"
  "status (OBJECT_OT_reset_orientation_execute c) = FINISHED
   \<or> status (OBJECT_OT_reset_orientation_execute c) = CANCELLED"
  "status (OBJECT_OT_copy_cursor_location_execute c) = FINISHED
   \<or> status (OBJECT_OT_copy_cursor_location_execute c) = CANCELLED"
  by (simp_all add: CURSOR_OT_reset_orientation_execute_def CURSOR_OT_flip_axis_execute_def
      CURSOR_OT_copy_from_object_execute_def CURSOR_OT_apply_to_object_execute_def
      CURSOR_OT_set_preset_orientation_execute_def CURSOR_OT_set_to_selection_center_execute_def
      CURSOR_OT_set_to_view_center_execute_def OBJECT_OT_rotate_axis_execute_def
      OBJECT_OT_reset_orientation_execute_def OBJECT_OT_copy_cursor_location_execute_def
      Let_def for_each_fold center_loop finished_def cancelled_def split: option.splits)

lemma outcome_iterations:
  "iterations (CURSOR_OT_reset_orientation_execute c) = 0"
  "iterations (CURSOR_OT_flip_axis_execute ax c) = 0"
  "iterations (CURSOR_OT_copy_from_object_execute h c) = 0"
  "iterations (CURSOR_OT_apply_to_object_execute h c) \<le> length (selected_objects c)"
  "iterations (CURSOR_OT_set_preset_orientation_execute orientation c) = 0"
  "iterations (CURSOR_OT_set_to_selection_center_execute c) \<le> length (selected_objects c)"
  "iterations (CURSOR_OT_set_to_view_center_execute c) = 0"
  "iterations (OBJECT_OT_rotate_axis_execute ax dir c) \<le> length (selected_objects c)"
  "iterations (OBJECT_OT_reset_orientation_execute c) \<le> length (selected_objects c)"
  "iterations (OBJECT_OT_copy_cursor_location_execute c) \<le> length (selected_objects c)"
  by (simp_all add: CURSOR_OT_reset_orientation_execute_def CURSOR_OT_flip_axis_execute_def
      CURSOR_OT_copy_from_object_execute_def CURSOR_OT_apply_to_object_execute_def
      CURSOR_OT_set_preset_orientation_execute_def CURSOR_OT_set_to_selection_center_execute_def
      CURSOR_OT_set_to_view_center_execute_def OBJECT_OT_rotate_axis_execute_def
      OBJECT_OT_reset_orientation_execute_def OBJECT_OT_copy_cursor_location_execute_def
      Let_def for_each_fold center_loop finished_def cancelled_def split: option.splits)

lemma align_to_surface_run:
  "CURSOR_OT_align_to_surface_execute h c
     = (if mode c \<noteq> ''EDIT_MESH''
        then Returned (cancelled ''Must be in Edit Mode with faces selected'' c 0)
        else Raised AttributeError [] c 0)"
  by (simp add: CURSOR_OT_align_to_surface_execute_def bmesh_from_mesh_def)

lemma host_call_runs:
  "run_status (OBJECT_OT_align_to_cursor_execute move_objects use_rotation h c) = Some FINISHED
   \<or> run_status (OBJECT_OT_align_to_cursor_execute move_objects use_rotation h c) = Some CANCELLED
   \<or> (\<exists>e. run_error (OBJECT_OT_align_to_cursor_execute move_objects use_rotation h c) = Some e)"
  "run_status (OBJECT_OT_snap_cursor_to_selected_execute h c) = Some FINISHED
   \<or> run_status (OBJECT_OT_snap_cursor_to_selected_execute h c) = Some CANCELLED
   \<or> (\<exists>e. run_error (OBJECT_OT_snap_cursor_to_selected_execute h c) = Some e)"
  "run_status (OBJECT_OT_snap_selected_to_cursor_execute use_offset h c) = Some FINISHED
   \<or> run_status (OBJECT_OT_snap_selected_to_cursor_execute use_offset h c) = Some CANCELLED
   \<or> (\<exists>e. run_error (OBJECT_OT_snap_selected_to_cursor_execute use_offset h c) = Some e)"
  "run_status (CURSOR_OT_machine_tools_menu_execute h c) = Some FINISHED
   \<or> run_status (CURSOR_OT_machine_tools_menu_execute h c) = Some CANCELLED
   \<or> (\<exists>e. run_error (CURSOR_OT_machine_tools_menu_execute h c) = Some e)"
  "run_status (OBJECT_OT_origin_to_cursor_execute h c) = Some FINISHED
   \<or> run_status (OBJECT_OT_origin_to_cursor_execute h c) = Some CANCELLED
   \<or> (\<exists>e. run_error (OBJECT_OT_origin_to_cursor_execute h c) = Some e)"
  "run_status (OBJECT_OT_create_transform_orientation_execute name h c) = Some FINISHED
   \<or> run_status (OBJECT_OT_create_transform_orientation_execute name h c) = Some CANCELLED
   \<or> (\<exists>e. run_error (OBJECT_OT_create_transform_orientation_execute name h c) = Some e)"
  by (simp_all add: OBJECT_OT_align_to_cursor_execute_def
      OBJECT_OT_snap_cursor_to_selected_execute_def OBJECT_OT_snap_selected_to_cursor_execute_def
      CURSOR_OT_machine_tools_menu_execute_def OBJECT_OT_origin_to_cursor_execute_def
      create_orientation_run Let_def case_prod_unfold finished_def cancelled_def
      split: sum.splits)

lemma host_call_iterations:
  "run_iterations (OBJECT_OT_align_to_cursor_execute move_objects use_rotation h c) = 0"
  "run_iterations (OBJECT_OT_snap_cursor_to_selected_execute h c) = 0"
  "run_iterations (OBJECT_OT_snap_selected_to_cursor_execute use_offset h c) = 0"
  "run_iterations (CURSOR_OT_machine_tools_menu_execute h c) = 0"
  "run_iterations (OBJECT_OT_create_transform_orientation_execute name h c) \<le> 1"
  by (simp_all add: OBJECT_OT_align_to_cursor_execute_def
      OBJECT_OT_snap_cursor_to_selected_execute_def OBJECT_OT_snap_selected_to_cursor_execute_def
      CURSOR_OT_machine_tools_menu_execute_def create_orientation_run Let_def finished_def
      cancelled_def split: sum.splits)

lemma origin_to_cursor_iterations:
  "run_iterations (OBJECT_OT_origin_to_cursor_execute h c) \<le> modules_count h"
  using is_machine_tools_available_count [of h]
  by (simp add: OBJECT_OT_origin_to_cursor_execute_def Let_def case_prod_unfold cancelled_def
      split: sum.splits)

lemma execute_ends:
  "run_status (execute h op c) = Some FINISHED \<or> run_status (execute h op c) = Some CANCELLED
   \<or> (\<exists>e. run_error (execute h op c) = Some e)"
proof (cases op)
  case cursor_align_to_view
  then show ?thesis using align_to_view_status [of h c] by auto
next
  case cursor_copy_from_object
  then show ?thesis using outcome_status(3) [of h c] by auto
next
  case cursor_apply_to_object
  then show ?thesis using outcome_status(4) [of h c] by auto
next
  case cursor_set_to_selection_center
  then show ?thesis using outcome_status(6) [of c] by auto
next
  case (object_rotate_axis_step ax dir)
  then show ?thesis using outcome_status(8) [of ax dir c] by auto
next
  case object_reset_orientation
  then show ?thesis using outcome_status(9) [of c] by auto
next
  case object_copy_cursor_location
  then show ?thesis using outcome_status(10) [of c] by auto
next
  case (object_align_to_cursor move_objects use_rotation)
  then show ?thesis using host_call_runs(1) [of move_objects use_rotation h c] by simp
next
  case object_cursor_to_selected
  then show ?thesis using host_call_runs(2) [of h c] by simp
next
  case (object_selected_to_cursor use_offset)
  then show ?thesis using host_call_runs(3) [of use_offset h c] by simp
next
  case cursor_machine_tools_menu
  then show ?thesis using host_call_runs(4) [of h c] by simp
next
  case object_origin_to_cursor
  then show ?thesis using host_call_runs(5) [of h c] by simp
next
  case (object_create_transform_orientation name)
  then show ?thesis using host_call_runs(6) [of name h c] by simp
qed (simp_all add: outcome_status rotate_axis_raises align_to_surface_run align_objects_run
      distribute_run cancelled_def)

lemma execute_iterations: "run_iterations (execute h op c) \<le> work_bound h c"
proof (cases op)
  case cursor_align_to_view
  then show ?thesis using iterations_align_to_view [of h c] by (simp add: work_bound_def)
next
  case cursor_apply_to_object
  then show ?thesis using outcome_iterations(4) [of h c] by (simp add: work_bound_def)
next
  case cursor_set_to_selection_center
  then show ?thesis using outcome_iterations(6) [of c] by (simp add: work_bound_def)
next
  case (object_rotate_axis_step ax dir)
  then show ?thesis using outcome_iterations(8) [of ax dir c] by (simp add: work_bound_def)
next
  case object_reset_orientation
  then show ?thesis using outcome_iterations(9) [of c] by (simp add: work_bound_def)
next
  case object_copy_cursor_location
  then show ?thesis using outcome_iterations(10) [of c] by (simp add: work_bound_def)
next
  case object_origin_to_cursor
  then show ?thesis using origin_to_cursor_iterations [of h c] by (simp add: work_bound_def)
next
  case (object_create_transform_orientation name)
  then show ?thesis using host_call_iterations(5) [of name h c] by (simp add: work_bound_def)
qed (simp_all add: outcome_iterations host_call_iterations rotate_axis_raises
      align_to_surface_run align_objects_run distribute_run cancelled_def work_bound_def)

text \<open>
  Claim C7, as stated: every \<open>execute\<close> loops only over the selected-object, face, area or
  region collections. It fails for \<open>cursor.align_to_view\<close>, which also loops over the spaces
  of each 3D view area: with nothing selected, no faces, one area and no region, four loop
  bodies run, three of them over the area's spaces.
\<close>

theorem align_to_view_loops_over_spaces:
  "selected_objects spaces_context = [] \<and> edit_faces spaces_context = []
   \<and> length (screen_areas spaces_context) = 1
   \<and> concat (map regions (screen_areas spaces_context)) = []
   \<and> concat (map spaces (screen_areas spaces_context))
       = [\<lparr>space_type = ''VIEW_3D''\<rparr>, \<lparr>space_type = ''IMAGE_EDITOR''\<rparr>, \<lparr>space_type = ''OUTLINER''\<rparr>]
   \<and> run_iterations (execute sample_host cursor_align_to_view spaces_context) = 4
   \<and> run_status (execute sample_host cursor_align_to_view spaces_context) = Some CANCELLED"
  by (simp add: CURSOR_OT_align_to_view_execute_def spaces_context_def sample_context_def
      cancelled_def)

text \<open>
  Claim C7, amended. Every operator's \<open>execute\<close> terminates on every input, returning
  FINISHED or CANCELLED or raising an exception: it runs a bounded number of loop bodies,
  over the finite selected-object, face, area, space, region, orientation-slot and
  add-on-module collections only, plus one finite sort, so control always returns to the
  host. Every loop of the model is a structural recursion over such a list; calls into the
  host are taken to return or raise.
\<close>

theorem execute_bounded_work:
  "(run_status (execute h op c) = Some FINISHED \<or> run_status (execute h op c) = Some CANCELLED
    \<or> (\<exists>e. run_error (execute h op c) = Some e))
   \<and> run_iterations (execute h op c) \<le> work_bound h c"
  using execute_ends [of h op c] execute_iterations [of h op c] by simp

theorem execute_bounded_work_witness:
  "run_status (execute sample_host cursor_apply_to_object sample_context) = Some FINISHED
   \<and> run_iterations (execute sample_host cursor_apply_to_object sample_context) \<le> 5
   \<and> work_bound sample_host sample_context = 5"
proof -
  have w: "work_bound sample_host sample_context = 5"
    by (simp add: work_bound_def sample_context_def areas_size_def modules_count_def
        sample_host_def)
  have s: "run_status (execute sample_host cursor_apply_to_object sample_context) = Some FINISHED"
    by (simp add: CURSOR_OT_apply_to_object_execute_def Let_def for_each_fold finished_def
        sample_context_def)
  show ?thesis
    using w s execute_bounded_work [of sample_host cursor_apply_to_object sample_context]
    by simp
qed

end
